theory Spec2Isabelle
  imports Complex_Main
begin

section \<open>Data model of the audio processing service\<close>

text \<open>
  The service is the class \<open>AudioProcessor\<close>: a transcoder engine handle, an
  \<open>initialized\<close> flag, an abort controller, a progress record and the consumer's
  progress callback. Strings are modelled as lists of code units below 256, byte arrays as
  lists of naturals.
\<close>

text \<open>
  A number of the language: a real, one of the two infinities, or \<open>NaN\<close>. Rounding to
  double precision and the sign of zero are outside the model. Where the engine hands a
  value to a handler, \<open>NaN\<close> also stands for a value that is not a number and converts to
  \<open>NaN\<close>, such as \<open>undefined\<close>. Equality in the model is sameness of the value; the
  comparisons of the language are \<open>number_less\<close> and \<open>number_le\<close> below.
\<close>

datatype number = NaN | NegInfinity | Num real | Infinity

type_synonym bytes = "nat list"

record File =
  name :: string
  file_data :: bytes

record Blob =
  blob_data :: bytes
  blob_type :: string

datatype ProcessStage = Converting | Transcribing | Analyzing

record ProcessingProgress =
  converting :: number
  transcribing :: number
  analyzing :: number

record ProcessingDetails =
  bitrate :: "string option"
  sampleRate :: "string option"
  duration :: "string option"
  size_d :: "string option"
  format :: "string option"
  stage :: "string option"

text \<open>
  A thrown value: an \<open>Error\<close> object with its message, or any value that is not an
  instance of \<open>Error\<close>.
\<close>

datatype thrown = Error string | NonError

text \<open>The module-level client of the external services, built from the configured key.\<close>

record OpenAI =
  apiKey :: "string option"

text \<open>Values that \<open>JSON.parse\<close> returns.\<close>

datatype json =
    JNull
  | JBool bool
  | JNumber real
  | JString string
  | JArray "json list"
  | JObject "(string \<times> json) list"

text \<open>
  Points at which \<open>convertToWav\<close> is suspended on a promise of the engine, so that another
  task (a call of \<open>cancel\<close>) can run before the promise settles.
\<close>

datatype await_point =
    AwaitToBlobURL string
  | AwaitLoad
  | AwaitFetchFile
  | AwaitWriteFile
  | AwaitExec
  | AwaitReadFile
  | AwaitRm string

text \<open>
  Everything the service does to the outside world, in order: callbacks to the consumer
  (stage, reference to the snapshot object, details) and calls of the engine and of the two
  external services.
\<close>

datatype event =
    Callback ProcessStage nat "ProcessingDetails option"
  | AbortSignal
  | FFmpegNew
  | ToBlobURL string string
  | FFmpegLoad
  | FetchFile
  | FFmpegWriteFile string bytes
  | FFmpegExec "string list"
  | FFmpegReadFile string
  | FFmpegRm string
  | FFmpegTerminate
  | TranscriptionsCreate OpenAI Blob string string
  | ChatCompletionsCreate OpenAI string "(string \<times> string) list" string

text \<open>
  The state of one \<open>AudioProcessor\<close>. \<open>abortController\<close> is \<open>None\<close> for \<open>null\<close> and
  \<open>Some b\<close> for a controller whose \<open>signal.aborted\<close> is \<open>b\<close>. \<open>heap\<close> holds the progress
  objects by reference: reference \<open>0\<close> is the object of the field \<open>progress\<close>, every other
  reference is an object made by the spread \<open>{ ...this.progress }\<close>. \<open>storage\<close> is the
  working storage of the current engine instance, \<open>trace\<close> the events so far.
\<close>

record AudioProcessor =
  initialized :: bool
  abortController :: "bool option"
  heap :: "ProcessingProgress list"
  storage :: "string list"
  trace :: "event list"

type_synonym 'a result = "(thrown + 'a) \<times> AudioProcessor"

text \<open>
  What the engine emits while a transcode runs: progress (the two values \<open>progress\<close> and
  \<open>time\<close> that the handler receives) and log lines.
\<close>

datatype ffmpeg_event = ProgressEvent number number | LogEvent string

text \<open>
  The behaviour of everything outside the class during one call of \<open>convertToWav\<close>: for each
  promise, \<open>None\<close> when it resolves and \<open>Some e\<close> when it rejects with \<open>e\<close>; the events the
  engine emits during the transcode; the conversion of a number to a string that the
  template literal uses; and the point, if any, at which \<open>cancel\<close> runs meanwhile.
\<close>

record ConvertEnv =
  toBlobURL_outcome :: "string \<Rightarrow> thrown option"
  load_outcome :: "thrown option"
  fetchFile_outcome :: "thrown option"
  writeFile_outcome :: "thrown option"
  exec_events :: "ffmpeg_event list"
  exec_outcome :: "thrown option"
  readFile_outcome :: "thrown + bytes"
  rm_outcome :: "string \<Rightarrow> thrown option"
  number_toString :: "number \<Rightarrow> string"
  cancel_at :: "await_point option"

text \<open>The transcription service's answer: the text, or a failure.\<close>

record TranscribeEnv =
  create_outcome :: "thrown + string"

text \<open>
  The analysis service's answer (the \<open>content\<close> of each choice, \<open>None\<close> for \<open>null\<close>) or a
  failure, and the language's \<open>JSON.parse\<close>.
\<close>

record AnalyzeEnv =
  completion_outcome :: "thrown + string option list"
  JSON_parse :: "string \<Rightarrow> thrown + json"

section \<open>String operations of the language\<close>

text \<open>\<open>s.includes(sub)\<close>: \<open>sub\<close> occurs in \<open>s\<close> as a contiguous block.\<close>

primrec includes_str :: "string \<Rightarrow> string \<Rightarrow> bool" where
  "includes_str [] sub = (sub = [])"
| "includes_str (c # cs) sub = (take (length sub) (c # cs) = sub \<or> includes_str cs sub)"

text \<open>\<open>s.lastIndexOf(c)\<close> for a single character: \<open>-1\<close> when it does not occur.\<close>

definition lastIndexOf :: "string \<Rightarrow> char \<Rightarrow> int" where
  "lastIndexOf s c =
     (if c \<in> set s
      then int (length s) - 1 - int (length (takeWhile (\<lambda>x. x \<noteq> c) (rev s)))
      else - 1)"

text \<open>\<open>s.substring(i)\<close>: a negative start counts as 0, one past the end gives the empty string.\<close>

definition substring :: "string \<Rightarrow> int \<Rightarrow> string" where
  "substring s i = drop (nat i) s"

text \<open>The classes \<open>\s\<close> and \<open>\d\<close> of the regular expression, on code units below 256.\<close>

definition is_space :: "char \<Rightarrow> bool" where
  "is_space c = (c \<in> {CHR 0x09, CHR 0x0A, CHR 0x0B, CHR 0x0C, CHR 0x0D, CHR 0x20, CHR 0xA0})"

definition is_digit :: "char \<Rightarrow> bool" where
  "is_digit c = (c \<in> set ''0123456789'')"

text \<open>
  The regular expression \<open>/bitrate=\s*(\d+\.\d+|\d+)\s*kbits\/s/\<close> matched at the start of
  a string, giving group 1. Every repetition is followed by a character outside its class,
  so the greedy choice is the only one that can match; the first alternative is tried first.
\<close>

definition bitrate_at :: "string \<Rightarrow> string option" where
  "bitrate_at s =
     (if take 8 s = ''bitrate='' then
        (let r = dropWhile is_space (drop 8 s);
             d1 = takeWhile is_digit r;
             r1 = dropWhile is_digit r;
             d2 = takeWhile is_digit (drop 1 r1);
             r2 = dropWhile is_digit (drop 1 r1)
         in if d1 = [] then None
            else if take 1 r1 = ''.'' \<and> d2 \<noteq> [] \<and> take 7 (dropWhile is_space r2) = ''kbits/s''
              then Some (d1 @ ''.'' @ d2)
            else if take 7 (dropWhile is_space r1) = ''kbits/s'' then Some d1
            else None)
      else None)"

text \<open>\<open>message.match(...)\<close>: the leftmost match, \<open>None\<close> for \<open>null\<close>.\<close>

fun bitrate_match :: "string \<Rightarrow> string option" where
  "bitrate_match [] = bitrate_at []"
| "bitrate_match (c # cs) =
     (case bitrate_at (c # cs) of Some b \<Rightarrow> Some b | None \<Rightarrow> bitrate_match cs)"

section \<open>Number operations of the language\<close>

text \<open>\<open>a < b\<close> and \<open>a <= b\<close>: both are false as soon as one side is \<open>NaN\<close>.\<close>

fun number_less :: "number \<Rightarrow> number \<Rightarrow> bool" where
  "number_less (Num x) (Num y) = (x < y)"
| "number_less NegInfinity (Num y) = True"
| "number_less NegInfinity Infinity = True"
| "number_less (Num x) Infinity = True"
| "number_less a b = False"

definition number_le :: "number \<Rightarrow> number \<Rightarrow> bool" where
  "number_le a b \<longleftrightarrow> a \<noteq> NaN \<and> b \<noteq> NaN \<and> \<not> number_less b a"

text \<open>\<open>Math.max\<close> and \<open>Math.min\<close> of two arguments: \<open>NaN\<close> as soon as one of them is.\<close>

definition Math_max :: "number \<Rightarrow> number \<Rightarrow> number" where
  "Math_max a b = (if a = NaN \<or> b = NaN then NaN else if number_less a b then b else a)"

definition Math_min :: "number \<Rightarrow> number \<Rightarrow> number" where
  "Math_min a b = (if a = NaN \<or> b = NaN then NaN else if number_less b a then b else a)"

text \<open>\<open>Math.round\<close>: the nearest integer, halves upwards; \<open>NaN\<close> and the infinities stay.\<close>

definition Math_round :: "number \<Rightarrow> number" where
  "Math_round a = (case a of Num x \<Rightarrow> Num (of_int \<lfloor>x + 1 / 2\<rfloor>) | _ \<Rightarrow> a)"

text \<open>
  \<open>a * c\<close> and \<open>a / c\<close> for a positive constant \<open>c\<close>, as \<open>scaled c a\<close> and
  \<open>scaled (1 / c) a\<close>: \<open>NaN\<close> and the infinities stay.
\<close>

definition scaled :: "real \<Rightarrow> number \<Rightarrow> number" where
  "scaled c a = (case a of Num x \<Rightarrow> Num (x * c) | _ \<Rightarrow> a)"

text \<open>A number used as a condition: false for 0 and for \<open>NaN\<close>.\<close>

definition truthy :: "number \<Rightarrow> bool" where
  "truthy a \<longleftrightarrow> a \<noteq> Num 0 \<and> a \<noteq> NaN"

section \<open>The class\<close>

text \<open>Sequencing of steps that may throw, and \<open>try\<close>/\<open>catch\<close>.\<close>

definition andThen :: "'a result \<Rightarrow> ('a \<Rightarrow> AudioProcessor \<Rightarrow> 'b result) \<Rightarrow> 'b result" where
  "andThen r f = (case r of (Inl e, s) \<Rightarrow> (Inl e, s) | (Inr a, s) \<Rightarrow> f a s)"

definition catch :: "'a result \<Rightarrow> (thrown \<Rightarrow> AudioProcessor \<Rightarrow> 'a result) \<Rightarrow> 'a result" where
  "catch r h = (case r of (Inl e, s) \<Rightarrow> h e s | (Inr a, s) \<Rightarrow> (Inr a, s))"

definition emit :: "event \<Rightarrow> AudioProcessor \<Rightarrow> AudioProcessor" where
  "emit ev s = s\<lparr>trace := trace s @ [ev]\<rparr>"

text \<open>The constructor: a new engine instance, nothing loaded, no controller, progress 0.\<close>

definition new_AudioProcessor :: AudioProcessor where
  "new_AudioProcessor =
     \<lparr>initialized = False, abortController = None,
      heap = [\<lparr>converting = Num 0, transcribing = Num 0, analyzing = Num 0\<rparr>],
      storage = [], trace = [FFmpegNew]\<rparr>"

text \<open>Writing one slot of a progress object, as \<open>this.progress[stage] = v\<close> does.\<close>

fun set_slot :: "ProcessStage \<Rightarrow> number \<Rightarrow> ProcessingProgress \<Rightarrow> ProcessingProgress" where
  "set_slot Converting v p = p\<lparr>converting := v\<rparr>"
| "set_slot Transcribing v p = p\<lparr>transcribing := v\<rparr>"
| "set_slot Analyzing v p = p\<lparr>analyzing := v\<rparr>"

fun slot :: "ProcessStage \<Rightarrow> ProcessingProgress \<Rightarrow> number" where
  "slot Converting p = converting p"
| "slot Transcribing p = transcribing p"
| "slot Analyzing p = analyzing p"

text \<open>
  \<open>updateProgress\<close>: the slot of the object at reference 0 is overwritten with
  \<open>Math.min(1, Math.max(0, value))\<close>, a new object with the same three fields is
  allocated, and the callback receives the reference of the new object. The callback is
  the consumer's; it is taken to return normally and to leave the object alone.
\<close>

definition updateProgress ::
  "ProcessStage \<Rightarrow> number \<Rightarrow> ProcessingDetails option \<Rightarrow> AudioProcessor \<Rightarrow> AudioProcessor" where
  "updateProgress st v details s =
     (let h1 = (heap s)[0 := set_slot st (Math_min (Num 1) (Math_max (Num 0) v)) (heap s ! 0)];
          snapshot = length h1;
          h2 = h1 @ [h1 ! 0]
      in s\<lparr>heap := h2, trace := trace s @ [Callback st snapshot details]\<rparr>)"

text \<open>
  \<open>cancel\<close>: aborts and forgets the controller when there is one, terminates the engine
  (which always exists, and loses its working storage), and clears \<open>initialized\<close>.
\<close>

definition cancel :: "AudioProcessor \<Rightarrow> AudioProcessor" where
  "cancel s =
     (let s1 = (case abortController s of
                  Some b \<Rightarrow> (emit AbortSignal s)\<lparr>abortController := None\<rparr>
                | None \<Rightarrow> s);
          s2 = (emit FFmpegTerminate s1)\<lparr>storage := []\<rparr>
      in s2\<lparr>initialized := False\<rparr>)"

text \<open>
  A suspension at \<open>p\<close>: \<open>cancel\<close> runs there when the environment says so. The event
  loop runs one task at a time, so a \<open>cancel\<close> during a conversion runs while the conversion
  waits for a promise; it is taken to run to its end before that promise settles.
\<close>

definition suspended :: "await_point \<Rightarrow> ConvertEnv \<Rightarrow> AudioProcessor \<Rightarrow> AudioProcessor" where
  "suspended p env s = (if cancel_at env = Some p then cancel s else s)"

text \<open>A call of the engine that returns nothing: issued, awaited, then settled.\<close>

definition engine_call ::
  "event \<Rightarrow> await_point \<Rightarrow> thrown option \<Rightarrow> ConvertEnv \<Rightarrow> AudioProcessor \<Rightarrow> unit result" where
  "engine_call ev p outcome env s =
     (let s1 = suspended p env (emit ev s)
      in case outcome of Some e \<Rightarrow> (Inl e, s1) | None \<Rightarrow> (Inr (), s1))"

definition no_details :: ProcessingDetails where
  "no_details = \<lparr>bitrate = None, sampleRate = None, duration = None, size_d = None,
                 format = None, stage = None\<rparr>"

text \<open>
  The two handlers that \<open>ensureFFmpeg\<close> registers on a new engine instance. The progress
  handler passes the engine's value on as it is.
\<close>

definition on_progress :: "ConvertEnv \<Rightarrow> number \<Rightarrow> number \<Rightarrow> AudioProcessor \<Rightarrow> AudioProcessor" where
  "on_progress env progress time s =
     updateProgress Converting progress
       (Some (no_details\<lparr>stage := Some ''Processing audio'',
                         duration := (if truthy time
                                      then Some (number_toString env
                                                   (scaled (1 / 100) (Math_round (scaled 100 time)))
                                                 @ ''s processed'')
                                      else None)\<rparr>)) s"

definition on_log :: "string \<Rightarrow> AudioProcessor \<Rightarrow> AudioProcessor" where
  "on_log message s =
     (case bitrate_match message of
        Some b \<Rightarrow>
          updateProgress Converting (converting (heap s ! 0))
            (Some (no_details\<lparr>stage := Some ''Processing audio'',
                              bitrate := Some (b @ '' kbps'')\<rparr>)) s
      | None \<Rightarrow> s)"

fun handle_event :: "ConvertEnv \<Rightarrow> ffmpeg_event \<Rightarrow> AudioProcessor \<Rightarrow> AudioProcessor" where
  "handle_event env (ProgressEvent progress time) s = on_progress env progress time s"
| "handle_event env (LogEvent message) s = on_log message s"

definition baseURL :: string where
  "baseURL = ''https://unpkg.com/@ffmpeg/core@0.12.6/dist/umd''"

definition toBlobURL :: "string \<Rightarrow> string \<Rightarrow> ConvertEnv \<Rightarrow> AudioProcessor \<Rightarrow> unit result" where
  "toBlobURL url mime env s =
     engine_call (ToBlobURL url mime) (AwaitToBlobURL url) (toBlobURL_outcome env url) env s"

text \<open>The \<open>catch\<close> block of \<open>ensureFFmpeg\<close>.\<close>

definition ensureFFmpeg_catch :: "thrown \<Rightarrow> thrown" where
  "ensureFFmpeg_catch error =
     (case error of
        Error message \<Rightarrow>
          if includes_str message ''aborted'' then Error ''Operation cancelled''
          else if includes_str message ''failed to fetch''
            then Error ''Failed to load audio processing components. Please check your internet connection.''
          else Error ''Failed to initialize audio processing. Please try again.''
      | NonError \<Rightarrow> Error ''Failed to initialize audio processing. Please try again.'')"

text \<open>
  \<open>ensureFFmpeg\<close>: nothing to do when initialized (the engine field is never empty);
  otherwise a new engine instance with the two handlers, the three runtime components, the
  load, and \<open>initialized = true\<close>.
\<close>

definition ensureFFmpeg :: "ConvertEnv \<Rightarrow> AudioProcessor \<Rightarrow> unit result" where
  "ensureFFmpeg env s =
     (if initialized s then (Inr (), s)
      else
        catch
          (let s1 = (emit FFmpegNew s)\<lparr>storage := []\<rparr> in
           andThen (toBlobURL (baseURL @ ''/ffmpeg-core.js'') ''text/javascript'' env s1) (\<lambda>_ s2.
           andThen (toBlobURL (baseURL @ ''/ffmpeg-core.wasm'') ''application/wasm'' env s2) (\<lambda>_ s3.
           andThen (toBlobURL (baseURL @ ''/ffmpeg-core.worker.js'') ''text/javascript'' env s3) (\<lambda>_ s4.
           andThen (engine_call FFmpegLoad AwaitLoad (load_outcome env) env s4) (\<lambda>_ s5.
           (Inr (), s5\<lparr>initialized := True\<rparr>))))))
          (\<lambda>error s'. (Inl (ensureFFmpeg_catch error), s')))"

text \<open>
  Reading \<open>this.abortController.signal.aborted\<close>: a TypeError when the controller is
  \<open>null\<close> (the message is the runtime's).
\<close>

definition null_signal_message :: string where
  "null_signal_message =
     ''Cannot read properties of null (reading '' @ [CHR 0x27] @ ''signal'' @ [CHR 0x27] @ '')''"

definition check_signal :: "AudioProcessor \<Rightarrow> unit result" where
  "check_signal s =
     (case abortController s of
        None \<Rightarrow> (Inl (Error null_signal_message), s)
      | Some aborted \<Rightarrow>
          if aborted then (Inl (Error ''Operation cancelled''), s) else (Inr (), s))"

definition fetchFile :: "File \<Rightarrow> ConvertEnv \<Rightarrow> AudioProcessor \<Rightarrow> bytes result" where
  "fetchFile audioFile env s =
     andThen (engine_call FetchFile AwaitFetchFile (fetchFile_outcome env) env s)
       (\<lambda>_ s1. (Inr (file_data audioFile), s1))"

text \<open>
  Modelled from the spec: the working storage of the engine (write, read and delete by
  name), which belongs to the engine and not to the class. A successful write or transcode
  adds the file it produces, a successful delete removes it, and a new or terminated engine
  instance has none.
\<close>

definition ffmpeg_writeFile :: "string \<Rightarrow> bytes \<Rightarrow> ConvertEnv \<Rightarrow> AudioProcessor \<Rightarrow> unit result" where
  "ffmpeg_writeFile path data env s =
     andThen (engine_call (FFmpegWriteFile path data) AwaitWriteFile (writeFile_outcome env) env s)
       (\<lambda>_ s1. (Inr (), s1\<lparr>storage := List.insert path (storage s1)\<rparr>))"

definition ffmpeg_exec :: "string list \<Rightarrow> ConvertEnv \<Rightarrow> AudioProcessor \<Rightarrow> unit result" where
  "ffmpeg_exec args env s =
     (let s1 = fold (handle_event env) (exec_events env) (emit (FFmpegExec args) s);
          s2 = suspended AwaitExec env s1
      in case exec_outcome env of
           Some e \<Rightarrow> (Inl e, s2)
         | None \<Rightarrow> (Inr (), s2\<lparr>storage := List.insert (last args) (storage s2)\<rparr>))"

definition ffmpeg_readFile :: "string \<Rightarrow> ConvertEnv \<Rightarrow> AudioProcessor \<Rightarrow> bytes result" where
  "ffmpeg_readFile path env s =
     (let s1 = suspended AwaitReadFile env (emit (FFmpegReadFile path) s)
      in case readFile_outcome env of Inl e \<Rightarrow> (Inl e, s1) | Inr data \<Rightarrow> (Inr data, s1))"

definition ffmpeg_rm :: "string \<Rightarrow> ConvertEnv \<Rightarrow> AudioProcessor \<Rightarrow> unit result" where
  "ffmpeg_rm path env s =
     andThen (engine_call (FFmpegRm path) (AwaitRm path) (rm_outcome env path) env s)
       (\<lambda>_ s1. (Inr (), s1\<lparr>storage := removeAll path (storage s1)\<rparr>))"

definition inputFileName :: "File \<Rightarrow> string" where
  "inputFileName audioFile =
     ''input'' @ substring (name audioFile) (lastIndexOf (name audioFile) CHR ''.'')"

definition outputFileName :: string where
  "outputFileName = ''output.wav''"

text \<open>The \<open>catch\<close> block of \<open>convertToWav\<close>.\<close>

definition convertToWav_catch :: "thrown \<Rightarrow> thrown" where
  "convertToWav_catch error =
     (case error of
        Error message \<Rightarrow>
          if message = ''Operation cancelled'' then error
          else Error (''Failed to convert audio: '' @ message)
      | NonError \<Rightarrow> Error (''Failed to convert audio: '' @ ''Unknown error''))"

definition exec_args :: "File \<Rightarrow> string list" where
  "exec_args audioFile =
     [''-i'', inputFileName audioFile, ''-ar'', ''16000'', ''-ac'', ''1'',
      ''-c:a'', ''pcm_s16le'', ''-progress'', ''pipe:1'', outputFileName]"

definition convertToWav :: "File \<Rightarrow> ConvertEnv \<Rightarrow> AudioProcessor \<Rightarrow> Blob result" where
  "convertToWav audioFile env s =
     catch
       (andThen (ensureFFmpeg env (s\<lparr>abortController := Some False\<rparr>)) (\<lambda>_ s1.
        andThen (check_signal s1) (\<lambda>_ s2.
        andThen (fetchFile audioFile env s2) (\<lambda>data s3.
        andThen (ffmpeg_writeFile (inputFileName audioFile) data env s3) (\<lambda>_ s4.
        andThen (ffmpeg_exec (exec_args audioFile) env s4) (\<lambda>_ s5.
        andThen (ffmpeg_readFile outputFileName env s5) (\<lambda>outputData s6.
        andThen (ffmpeg_rm (inputFileName audioFile) env s6) (\<lambda>_ s7.
        andThen (ffmpeg_rm outputFileName env s7) (\<lambda>_ s8.
        (Inr \<lparr>blob_data = outputData, blob_type = ''audio/wav''\<rparr>, s8))))))))))
       (\<lambda>error s'. (Inl (convertToWav_catch error), s'))"

text \<open>
  The entry check of the two service stages, \<open>this.abortController?.signal.aborted\<close>:
  with no controller the optional chain gives \<open>undefined\<close>, which does not throw.
\<close>

definition aborted_at_entry :: "AudioProcessor \<Rightarrow> bool" where
  "aborted_at_entry s = (case abortController s of None \<Rightarrow> False | Some aborted \<Rightarrow> aborted)"

definition transcribeAudio_catch :: "thrown \<Rightarrow> thrown" where
  "transcribeAudio_catch error =
     (case error of
        Error message \<Rightarrow>
          if includes_str message ''API key''
          then Error ''Invalid or missing OpenAI API key. Please check your environment variables.''
          else Error (''Failed to transcribe audio: '' @ message)
      | NonError \<Rightarrow> Error (''Failed to transcribe audio: '' @ ''Unknown error''))"

definition transcribeAudio ::
  "OpenAI \<Rightarrow> Blob \<Rightarrow> TranscribeEnv \<Rightarrow> AudioProcessor \<Rightarrow> string result" where
  "transcribeAudio openai audioBlob env s =
     (if aborted_at_entry s then (Inl (Error ''Operation cancelled''), s)
      else
        catch
          (let s1 = updateProgress Transcribing (Num (1 / 10)) None s;
               s2 = emit (TranscriptionsCreate openai audioBlob ''whisper-1'' ''auto'') s1
           in case create_outcome env of
                Inl e \<Rightarrow> (Inl e, s2)
              | Inr text \<Rightarrow> (Inr text, updateProgress Transcribing (Num 1) None s2))
          (\<lambda>error s'. (Inl (transcribeAudio_catch error), s')))"

definition segmentByTopics_catch :: "thrown \<Rightarrow> thrown" where
  "segmentByTopics_catch error =
     (case error of
        Error message \<Rightarrow>
          if includes_str message ''API key''
          then Error ''Invalid or missing OpenAI API key. Please check your environment variables.''
          else Error (''Failed to analyze transcription: '' @ message)
      | NonError \<Rightarrow> Error (''Failed to analyze transcription: '' @ ''Unknown error''))"

definition chat_messages :: "string \<Rightarrow> (string \<times> string) list" where
  "chat_messages transcription =
     [(''system'',
       ''You are a meeting minutes expert. Analyze the transcription and segment it into topics, identifying action items and key points. Support both English and Spanish content.''),
      (''user'',
       ''Please analyze this meeting transcription and return a JSON with topics, key points, and action items: ''
       @ transcription)]"

definition undefined_message_message :: string where
  "undefined_message_message =
     ''Cannot read properties of undefined (reading '' @ [CHR 0x27] @ ''message'' @ [CHR 0x27] @ '')''"

text \<open>
  \<open>JSON.parse(response.choices[0].message.content)\<close>: a TypeError when there is no first
  choice; a \<open>null\<close> content is converted to the string \<open>null\<close> before parsing.
\<close>

definition parse_first_choice :: "AnalyzeEnv \<Rightarrow> string option list \<Rightarrow> thrown + json" where
  "parse_first_choice env choices =
     (case choices of
        [] \<Rightarrow> Inl (Error undefined_message_message)
      | content # _ \<Rightarrow>
          JSON_parse env (case content of None \<Rightarrow> ''null'' | Some c \<Rightarrow> c))"

definition segmentByTopics ::
  "OpenAI \<Rightarrow> string \<Rightarrow> AnalyzeEnv \<Rightarrow> AudioProcessor \<Rightarrow> json result" where
  "segmentByTopics openai transcription env s =
     (if aborted_at_entry s then (Inl (Error ''Operation cancelled''), s)
      else
        catch
          (let s1 = updateProgress Analyzing (Num (1 / 10)) None s;
               s2 = emit (ChatCompletionsCreate openai ''gpt-4'' (chat_messages transcription)
                            ''json_object'') s1
           in case completion_outcome env of
                Inl e \<Rightarrow> (Inl e, s2)
              | Inr choices \<Rightarrow>
                  (let s3 = updateProgress Analyzing (Num 1) None s2
                   in (parse_first_choice env choices, s3)))
          (\<lambda>error s'. (Inl (segmentByTopics_catch error), s')))"

section \<open>Sequences of calls on one instance\<close>

datatype call =
    ConvertToWav File ConvertEnv
  | TranscribeAudio OpenAI Blob TranscribeEnv
  | SegmentByTopics OpenAI string AnalyzeEnv
  | Cancel

fun step :: "call \<Rightarrow> AudioProcessor \<Rightarrow> AudioProcessor" where
  "step (ConvertToWav audioFile env) s = snd (convertToWav audioFile env s)"
| "step (TranscribeAudio openai audioBlob env) s = snd (transcribeAudio openai audioBlob env s)"
| "step (SegmentByTopics openai transcription env) s = snd (segmentByTopics openai transcription env s)"
| "step Cancel s = cancel s"

definition run :: "call list \<Rightarrow> AudioProcessor \<Rightarrow> AudioProcessor" where
  "run calls s = fold step calls s"

section \<open>Observations on a state\<close>

text \<open>The snapshot references the callback has received, oldest first, and what they hold.\<close>

fun callback_refs :: "event list \<Rightarrow> nat list" where
  "callback_refs [] = []"
| "callback_refs (Callback st a d # es) = a # callback_refs es"
| "callback_refs (e # es) = callback_refs es"

definition delivered :: "AudioProcessor \<Rightarrow> ProcessingProgress list" where
  "delivered s = map (\<lambda>a. heap s ! a) (callback_refs (trace s))"

text \<open>The values the engine reports as \<open>progress\<close> in its progress events, in order.\<close>

fun fractions :: "ffmpeg_event list \<Rightarrow> number list" where
  "fractions [] = []"
| "fractions (ProgressEvent progress time # es) = progress # fractions es"
| "fractions (LogEvent message # es) = fractions es"

text \<open>The values the engine reports as \<open>progress\<close> during one call on the instance.\<close>

fun reported :: "call \<Rightarrow> number list" where
  "reported (ConvertToWav audioFile env) = fractions (exec_events env)"
| "reported c = []"

text \<open>
  Events of an engine initialization: a new instance, a runtime component, the load; and the
  five of them that \<open>ensureFFmpeg\<close> issues when all succeed.
\<close>

fun is_initialization :: "event \<Rightarrow> bool" where
  "is_initialization FFmpegNew = True"
| "is_initialization (ToBlobURL url mime) = True"
| "is_initialization FFmpegLoad = True"
| "is_initialization e = False"

definition initializations :: "AudioProcessor \<Rightarrow> event list" where
  "initializations s = filter is_initialization (trace s)"

definition engine_initialization :: "event list" where
  "engine_initialization =
     [FFmpegNew,
      ToBlobURL (baseURL @ ''/ffmpeg-core.js'') ''text/javascript'',
      ToBlobURL (baseURL @ ''/ffmpeg-core.wasm'') ''application/wasm'',
      ToBlobURL (baseURL @ ''/ffmpeg-core.worker.js'') ''text/javascript'',
      FFmpegLoad]"

text \<open>The terminations of the engine, one for each \<open>cancel\<close>.\<close>

definition terminations :: "AudioProcessor \<Rightarrow> event list" where
  "terminations s = filter (\<lambda>e. e = FFmpegTerminate) (trace s)"

text \<open>The names whose deletion from the working storage has been requested.\<close>

fun removals :: "event list \<Rightarrow> string list" where
  "removals [] = []"
| "removals (FFmpegRm path # es) = path # removals es"
| "removals (e # es) = removals es"

text \<open>Requests sent to the two external services.\<close>

fun is_request :: "event \<Rightarrow> bool" where
  "is_request (TranscriptionsCreate openai file model language) = True"
| "is_request (ChatCompletionsCreate openai model messages response_format) = True"
| "is_request e = False"

definition requests :: "AudioProcessor \<Rightarrow> event list" where
  "requests s = filter is_request (trace s)"

section \<open>Example inputs\<close>

definition example_file :: File where
  "example_file = \<lparr>name = ''meeting.mp3'', file_data = [73, 68, 51]\<rparr>"

text \<open>An environment in which every engine call succeeds and nobody cancels.\<close>

definition example_env :: ConvertEnv where
  "example_env =
     \<lparr>toBlobURL_outcome = (\<lambda>url. None), load_outcome = None, fetchFile_outcome = None,
      writeFile_outcome = None,
      exec_events = [ProgressEvent (Num (1 / 2)) (Num 3),
                     LogEvent ''size= 64kB time=00:00:03.00 bitrate= 256.0kbits/s speed=1x'',
                     ProgressEvent (Num 1) (Num 6)],
      exec_outcome = None, readFile_outcome = Inr [82, 73, 70, 70],
      rm_outcome = (\<lambda>path. None), number_toString = (\<lambda>x. ''3''), cancel_at = None\<rparr>"

text \<open>The same with an engine that emits nothing during the transcode.\<close>

definition quiet_env :: ConvertEnv where
  "quiet_env = example_env\<lparr>exec_events := []\<rparr>"

text \<open>An environment in which the engine writes one log line with a bitrate and nothing else.\<close>

definition logging_env :: ConvertEnv where
  "logging_env = quiet_env\<lparr>exec_events := [LogEvent ''bitrate= 256.0kbits/s'']\<rparr>"

text \<open>An engine that reports 0.5 and then 0.3.\<close>

definition regressing_env :: ConvertEnv where
  "regressing_env =
     example_env\<lparr>exec_events := [ProgressEvent (Num (1 / 2)) (Num 1),
                                 ProgressEvent (Num (3 / 10)) (Num 2)]\<rparr>"

text \<open>An engine that reports a value below 0 and then one above 1.\<close>

definition overshooting_env :: ConvertEnv where
  "overshooting_env =
     example_env\<lparr>exec_events := [ProgressEvent (Num (- 1 / 2)) (Num 1),
                                 ProgressEvent (Num (3 / 2)) (Num 2)]\<rparr>"

text \<open>An engine that reports a value that is not a number.\<close>

definition undefined_progress_env :: ConvertEnv where
  "undefined_progress_env = example_env\<lparr>exec_events := [ProgressEvent NaN (Num 1)]\<rparr>"

text \<open>A transcode that fails.\<close>

definition failing_exec_env :: ConvertEnv where
  "failing_exec_env = quiet_env\<lparr>exec_outcome := Some (Error ''Conversion failed'')\<rparr>"

text \<open>
  \<open>cancel\<close> while the transcode is pending; the engine rejects the pending call with the
  error of its \<open>terminate\<close>.
\<close>

definition interrupted_env :: ConvertEnv where
  "interrupted_env =
     quiet_env\<lparr>cancel_at := Some AwaitExec,
                exec_outcome := Some (Error ''called FFmpeg.terminate()'')\<rparr>"

definition example_blob :: Blob where
  "example_blob = \<lparr>blob_data = [82, 73, 70, 70], blob_type = ''audio/wav''\<rparr>"

definition example_client :: OpenAI where
  "example_client = \<lparr>apiKey = Some ''sk-test''\<rparr>"

definition keyless_client :: OpenAI where
  "keyless_client = \<lparr>apiKey = None\<rparr>"

text \<open>A stand-in for \<open>JSON.parse\<close> that knows two texts and rejects every other one.\<close>

definition example_parse :: "string \<Rightarrow> thrown + json" where
  "example_parse text =
     (if text = ''{}'' then Inr (JObject [])
      else if text = ''[1]'' then Inr (JArray [JNumber 1])
      else Inl (Error ''Unexpected token in JSON''))"

definition example_tenv :: TranscribeEnv where
  "example_tenv = \<lparr>create_outcome = Inr ''We discussed the budget.''\<rparr>"

definition example_aenv :: AnalyzeEnv where
  "example_aenv = \<lparr>completion_outcome = Inr [Some ''{}''], JSON_parse = example_parse\<rparr>"

text \<open>An answer that is valid JSON without any of the expected fields, and one that is no JSON.\<close>

definition shapeless_aenv :: AnalyzeEnv where
  "shapeless_aenv = \<lparr>completion_outcome = Inr [Some ''[1]''], JSON_parse = example_parse\<rparr>"

definition unparsable_aenv :: AnalyzeEnv where
  "unparsable_aenv =
     \<lparr>completion_outcome = Inr [Some ''Sorry, no JSON''], JSON_parse = example_parse\<rparr>"

text \<open>Services that reject the request for want of a valid key.\<close>

definition rejecting_tenv :: TranscribeEnv where
  "rejecting_tenv = \<lparr>create_outcome = Inl (Error ''401 Incorrect API key provided'')\<rparr>"

definition rejecting_aenv :: AnalyzeEnv where
  "rejecting_aenv = \<lparr>completion_outcome = Inl (Error ''401 Incorrect API key provided''),
                      JSON_parse = example_parse\<rparr>"

section \<open>Predicates used in the proofs\<close>

text \<open>
  A property of the state is kept by the engine-side effects when no event other than a
  callback and no assignment to the working storage or to \<open>initialized\<close> can break it,
  nor one of the two assignments to \<open>abortController\<close> that the class makes (\<open>null\<close>
  and a new controller); it is kept by all effects when no progress update can break it
  either. Every method is built from these effects.
\<close>

definition kept0 :: "(AudioProcessor \<Rightarrow> bool) \<Rightarrow> bool" where
  "kept0 I \<longleftrightarrow>
     (\<forall>s ev. (\<forall>st a d. ev \<noteq> Callback st a d) \<longrightarrow> I s \<longrightarrow> I (emit ev s)) \<and>
     (\<forall>s x. I s \<longrightarrow> I (s\<lparr>storage := x\<rparr>)) \<and>
     (\<forall>s b. I s \<longrightarrow> I (s\<lparr>initialized := b\<rparr>)) \<and>
     (\<forall>s. I s \<longrightarrow> I (s\<lparr>abortController := None\<rparr>)) \<and>
     (\<forall>s. I s \<longrightarrow> I (s\<lparr>abortController := Some False\<rparr>))"

definition kept :: "(AudioProcessor \<Rightarrow> bool) \<Rightarrow> bool" where
  "kept I \<longleftrightarrow> kept0 I \<and> (\<forall>s st v d. I s \<longrightarrow> I (updateProgress st v d s))"

text \<open>
  What holds after a step that may throw: \<open>Q\<close> of the value and the state when it returns,
  \<open>E\<close> of the thrown value and the state when it throws.
\<close>

definition post ::
  "'a result \<Rightarrow> ('a \<Rightarrow> AudioProcessor \<Rightarrow> bool) \<Rightarrow> (thrown \<Rightarrow> AudioProcessor \<Rightarrow> bool) \<Rightarrow> bool" where
  "post r Q E = (case r of (Inr a, s) \<Rightarrow> Q a s | (Inl e, s) \<Rightarrow> E e s)"

text \<open>
  The value that a progress update stores for a given value. A fraction is a number from 0
  to 1. With \<open>in_unit\<close> every slot of a progress object is a fraction or \<open>NaN\<close>, and
  with \<open>heap_ok\<close> every object of the heap is such; \<open>fraction_slots\<close> and
  \<open>fractions_only\<close> say the same with fractions alone.
\<close>

abbreviation clamp :: "number \<Rightarrow> number" where
  "clamp v \<equiv> Math_min (Num 1) (Math_max (Num 0) v)"

definition is_fraction :: "number \<Rightarrow> bool" where
  "is_fraction a \<longleftrightarrow> number_le (Num 0) a \<and> number_le a (Num 1)"

definition in_unit :: "ProcessingProgress \<Rightarrow> bool" where
  "in_unit p \<longleftrightarrow> (\<forall>st. slot st p = NaN \<or> is_fraction (slot st p))"

definition heap_ok :: "AudioProcessor \<Rightarrow> bool" where
  "heap_ok s \<longleftrightarrow> heap s \<noteq> [] \<and> (\<forall>p \<in> set (heap s). in_unit p)"

definition fraction_slots :: "ProcessingProgress \<Rightarrow> bool" where
  "fraction_slots p \<longleftrightarrow> (\<forall>st. is_fraction (slot st p))"

definition fractions_only :: "AudioProcessor \<Rightarrow> bool" where
  "fractions_only s \<longleftrightarrow> heap s \<noteq> [] \<and> (\<forall>p \<in> set (heap s). fraction_slots p)"

text \<open>The snapshots of \<open>s0\<close> are still there in \<open>s\<close>, unchanged.\<close>

definition snapshots_kept :: "AudioProcessor \<Rightarrow> AudioProcessor \<Rightarrow> bool" where
  "snapshots_kept s0 s \<longleftrightarrow>
     length (heap s0) \<le> length (heap s) \<and>
     (\<forall>a. 0 < a \<and> a < length (heap s0) \<longrightarrow> heap s ! a = heap s0 ! a)"

text \<open>The callbacks so far have received the references 1, 2, ... in this order.\<close>

definition refs_ok :: "AudioProcessor \<Rightarrow> bool" where
  "refs_ok s \<longleftrightarrow> heap s \<noteq> [] \<and> callback_refs (trace s) = [1..<length (heap s)]"

text \<open>No controller of the instance is in the aborted state.\<close>

definition never_aborted :: "AudioProcessor \<Rightarrow> bool" where
  "never_aborted s \<longleftrightarrow> abortController s \<noteq> Some True"

text \<open>
  Each slot holds a fraction and is non-decreasing along the snapshots and up to the record
  itself; the two service stages have not reported yet; the record's \<open>converting\<close> slot
  is not above what will be stored for any of the values still to come.
\<close>

definition mono_ok :: "AudioProcessor \<Rightarrow> bool" where
  "mono_ok s \<longleftrightarrow> heap s \<noteq> [] \<and> fraction_slots (heap s ! 0) \<and>
     (\<forall>st. sorted_wrt number_le (map (slot st) (tl (heap s)) @ [slot st (heap s ! 0)]))"

definition fresh_stages :: "AudioProcessor \<Rightarrow> bool" where
  "fresh_stages s \<longleftrightarrow> transcribing (heap s ! 0) = Num 0 \<and> analyzing (heap s ! 0) = Num 0"

definition below_reports :: "number list \<Rightarrow> AudioProcessor \<Rightarrow> bool" where
  "below_reports vs s \<longleftrightarrow>
     (\<forall>v \<in> set vs. number_le (converting (heap s ! 0)) (Math_min (Num 1) (Math_max (Num 0) v)))"

text \<open>
  The history of the progress objects: the snapshots are the objects 1, 2, ... in the order
  of the callbacks; \<open>recorded_before\<close> reads a slot of the snapshot that precedes a given
  one (all slots are 0 before the first). In a state with a regular history each snapshot
  differs from its predecessor in the slot of its own stage at most, and a callback that
  carries a bitrate leaves even that slot as it was.
\<close>

definition recorded_before :: "ProcessStage \<Rightarrow> AudioProcessor \<Rightarrow> nat \<Rightarrow> number" where
  "recorded_before st s a = (if a = 1 then Num 0 else slot st (heap s ! (a - 1)))"

definition with_bitrate :: "ProcessingDetails option \<Rightarrow> bool" where
  "with_bitrate d = (case d of None \<Rightarrow> False | Some dd \<Rightarrow> bitrate dd \<noteq> None)"

definition history_ok :: "AudioProcessor \<Rightarrow> bool" where
  "history_ok s \<longleftrightarrow>
     heap s \<noteq> [] \<and> in_unit (heap s ! 0) \<and>
     callback_refs (trace s) = [1..<length (heap s)] \<and>
     (\<forall>st. slot st (heap s ! 0) = recorded_before st s (length (heap s))) \<and>
     (\<forall>st a d. Callback st a d \<in> set (trace s) \<longrightarrow>
        (\<forall>st'. st' \<noteq> st \<longrightarrow> slot st' (heap s ! a) = recorded_before st' s a) \<and>
        (with_bitrate d \<longrightarrow> st = Converting \<and> slot st (heap s ! a) = recorded_before st s a))"

section \<open>Comparison and clamping of numbers\<close>

text \<open>
  The comparison on numbers that are not \<open>NaN\<close> is the usual order. The value that a
  progress update stores is a fraction, except that it is \<open>NaN\<close> for \<open>NaN\<close>; a
  fraction and \<open>NaN\<close> are stored as they are; and the stored value grows with the
  reported one.
\<close>

lemma number_le_Num [simp]: "number_le (Num x) (Num y) \<longleftrightarrow> x \<le> y"
  by (auto simp: number_le_def)

lemma number_le_NaN [simp]: "\<not> number_le NaN a" "\<not> number_le a NaN"
  by (simp_all add: number_le_def)

lemma number_le_trans: "number_le a b \<Longrightarrow> number_le b c \<Longrightarrow> number_le a c"
  by (cases a; cases b; cases c) (simp_all add: number_le_def)

lemma is_fraction_simps [simp]:
  "is_fraction (Num x) \<longleftrightarrow> 0 \<le> x \<and> x \<le> 1"
  "\<not> is_fraction NaN" "\<not> is_fraction Infinity" "\<not> is_fraction NegInfinity"
  by (auto simp: is_fraction_def number_le_def)

lemma number_le_refl: "is_fraction a \<Longrightarrow> number_le a a"
  by (cases a) simp_all

lemma clamp_cases:
  "clamp v = (case v of NaN \<Rightarrow> NaN | NegInfinity \<Rightarrow> Num 0
              | Num x \<Rightarrow> Num (min 1 (max 0 x)) | Infinity \<Rightarrow> Num 1)"
  by (cases v) (auto simp: Math_min_def Math_max_def)

lemma clamp_Num [simp]: "clamp (Num x) = Num (min 1 (max 0 x))"
  by (simp add: clamp_cases)

lemma clamp_NaN [simp]: "clamp NaN = NaN"
  by (simp add: clamp_cases)

lemma clamp_range: "clamp v = NaN \<or> is_fraction (clamp v)"
  by (cases v) (simp_all add: clamp_cases)

lemma clamp_fraction: "v \<noteq> NaN \<Longrightarrow> is_fraction (clamp v)"
  by (cases v) (simp_all add: clamp_cases)

lemma clamp_id: "a = NaN \<or> is_fraction a \<Longrightarrow> clamp a = a"
  by (cases a) (auto simp: clamp_cases)

lemma clamp_mono: "number_le a b \<Longrightarrow> number_le (clamp a) (clamp b)"
  by (cases a; cases b) (auto simp: clamp_cases number_le_def)

lemma number_le_clamp: "number_le a (clamp v) \<Longrightarrow> is_fraction (clamp v)"
  using clamp_range[of v] by auto

section \<open>Effects of the primitives on each field\<close>

text \<open>
  What an event, a progress update and \<open>cancel\<close> do to each field of the state. A
  progress update writes reference 0, appends one object and touches nothing else.
\<close>

lemma emit_simps [simp]:
  "heap (emit ev s) = heap s" "trace (emit ev s) = trace s @ [ev]"
  "initialized (emit ev s) = initialized s" "abortController (emit ev s) = abortController s"
  "storage (emit ev s) = storage s"
  by (simp_all add: emit_def)

lemma updateProgress_simps [simp]:
  "trace (updateProgress st v d s) = trace s @ [Callback st (length (heap s)) d]"
  "initialized (updateProgress st v d s) = initialized s"
  "abortController (updateProgress st v d s) = abortController s"
  "storage (updateProgress st v d s) = storage s"
  "length (heap (updateProgress st v d s)) = Suc (length (heap s))"
  by (simp_all add: updateProgress_def Let_def)

lemma heap_updateProgress:
  "heap s \<noteq> [] \<Longrightarrow>
   heap (updateProgress st v d s) =
     (set_slot st (clamp v) (heap s ! 0) # tl (heap s))
     @ [set_slot st (clamp v) (heap s ! 0)]"
  by (cases "heap s") (simp_all add: updateProgress_def Let_def)

lemma nth_updateProgress_old:
  "0 < a \<Longrightarrow> a < length (heap s) \<Longrightarrow> heap (updateProgress st v d s) ! a = heap s ! a"
  by (simp add: updateProgress_def Let_def nth_append)

lemma nth_updateProgress_new:
  "heap s \<noteq> [] \<Longrightarrow>
   heap (updateProgress st v d s) ! length (heap s) = set_slot st (clamp v) (heap s ! 0)"
  by (simp add: updateProgress_def Let_def nth_append)

lemma nth_updateProgress_0:
  "heap s \<noteq> [] \<Longrightarrow>
   heap (updateProgress st v d s) ! 0 = set_slot st (clamp v) (heap s ! 0)"
  by (simp add: updateProgress_def Let_def nth_append)

lemma slot_set_slot:
  "slot st' (set_slot st v p) = (if st' = st then v else slot st' p)"
  by (cases st; cases st') simp_all

lemma slot_converting_update:
  "st \<noteq> Converting \<Longrightarrow> slot st (p\<lparr>converting := v\<rparr>) = slot st p"
  by (cases st) simp_all

lemma slot_same [simp]: "slot st \<lparr>converting = a, transcribing = a, analyzing = a\<rparr> = a"
  by (cases st) simp_all

lemma cancel_simps [simp]:
  "heap (cancel s) = heap s" "initialized (cancel s) = False"
  "abortController (cancel s) = None" "storage (cancel s) = []"
  by (simp_all add: cancel_def Let_def split: option.splits)

lemma trace_cancel:
  "trace (cancel s) =
     trace s @ (case abortController s of None \<Rightarrow> [] | Some b \<Rightarrow> [AbortSignal]) @ [FFmpegTerminate]"
  by (simp add: cancel_def Let_def split: option.splits)

section \<open>Properties kept by every operation\<close>

text \<open>
  Each step of the class keeps every property that its primitive effects keep. The rule
  for \<open>convertToWav\<close> is stated with a property before the transcode and one after it,
  since the handlers of the engine's events run only there.
\<close>

lemma kept_kept0: "kept I \<Longrightarrow> kept0 I"
  by (simp add: kept_def)

lemma kept_updateProgress: "kept I \<Longrightarrow> I s \<Longrightarrow> I (updateProgress st v d s)"
  by (simp add: kept_def)

lemma kept0_emit: "kept0 I \<Longrightarrow> (\<And>st a d. ev \<noteq> Callback st a d) \<Longrightarrow> I s \<Longrightarrow> I (emit ev s)"
  by (simp add: kept0_def)

lemma kept0_storage: "kept0 I \<Longrightarrow> I s \<Longrightarrow> I (s\<lparr>storage := x\<rparr>)"
  by (simp add: kept0_def)

lemma kept0_initialized: "kept0 I \<Longrightarrow> I s \<Longrightarrow> I (s\<lparr>initialized := b\<rparr>)"
  by (simp add: kept0_def)

lemma kept0_abortController:
  "kept0 I \<Longrightarrow> I s \<Longrightarrow> I (s\<lparr>abortController := None\<rparr>)"
  "kept0 I \<Longrightarrow> I s \<Longrightarrow> I (s\<lparr>abortController := Some False\<rparr>)"
  by (simp_all add: kept0_def)

lemma kept0_cancel: "kept0 I \<Longrightarrow> I s \<Longrightarrow> I (cancel s)"
  unfolding cancel_def Let_def
  by (cases "abortController s")
     (simp_all add: kept0_emit[where I=I] kept0_storage[where I=I]
        kept0_initialized[where I=I] kept0_abortController[where I=I])

lemma kept0_suspended: "kept0 I \<Longrightarrow> I s \<Longrightarrow> I (suspended p env s)"
  by (simp add: suspended_def kept0_cancel[where I=I])

lemma carry_andThen:
  "A (snd r) \<Longrightarrow> (\<And>s1. A s1 \<Longrightarrow> B s1) \<Longrightarrow> (\<And>a s1. A s1 \<Longrightarrow> B (snd (f a s1)))
   \<Longrightarrow> B (snd (andThen r f))"
  by (cases r) (auto simp: andThen_def split: sum.splits)

lemma keep_andThen:
  "I (snd r) \<Longrightarrow> (\<And>a s1. I s1 \<Longrightarrow> I (snd (f a s1))) \<Longrightarrow> I (snd (andThen r f))"
  by (cases r) (auto simp: andThen_def split: sum.splits)

lemma keep_catch:
  "I (snd r) \<Longrightarrow> (\<And>e s1. I s1 \<Longrightarrow> I (snd (h e s1))) \<Longrightarrow> I (snd (catch r h))"
  by (cases r) (auto simp: catch_def split: sum.splits)

lemma kept0_engine_call:
  "kept0 I \<Longrightarrow> (\<And>st a d. ev \<noteq> Callback st a d) \<Longrightarrow> I s
   \<Longrightarrow> I (snd (engine_call ev p out env s))"
  by (simp add: engine_call_def Let_def kept0_suspended[where I=I] kept0_emit[where I=I]
        split: option.splits)

lemma kept0_toBlobURL: "kept0 I \<Longrightarrow> I s \<Longrightarrow> I (snd (toBlobURL url mime env s))"
  by (simp add: toBlobURL_def kept0_engine_call[where I=I])

lemma kept0_ensureFFmpeg: "kept0 I \<Longrightarrow> I s \<Longrightarrow> I (snd (ensureFFmpeg env s))"
  unfolding ensureFFmpeg_def Let_def
  by (auto intro!: keep_catch[where I=I] keep_andThen[where I=I] kept0_toBlobURL[where I=I]
        kept0_engine_call[where I=I] kept0_storage[where I=I] kept0_emit[where I=I]
        kept0_initialized[where I=I])

lemma keep_check_signal: "I s \<Longrightarrow> I (snd (check_signal s))"
  by (simp add: check_signal_def split: option.splits)

lemma kept0_fetchFile: "kept0 I \<Longrightarrow> I s \<Longrightarrow> I (snd (fetchFile f env s))"
  unfolding fetchFile_def
  by (auto intro!: keep_andThen[where I=I] kept0_engine_call[where I=I])

lemma kept0_writeFile: "kept0 I \<Longrightarrow> I s \<Longrightarrow> I (snd (ffmpeg_writeFile p d env s))"
  unfolding ffmpeg_writeFile_def
  by (auto intro!: keep_andThen[where I=I] kept0_engine_call[where I=I]
        kept0_storage[where I=I])

lemma carry_exec:
  assumes "kept0 P" "kept0 Q"
    and "\<And>s1. P s1 \<Longrightarrow> Q (fold (handle_event env) (exec_events env) s1)"
    and "P s"
  shows "Q (snd (ffmpeg_exec args env s))"
proof -
  have "P (emit (FFmpegExec args) s)"
    using assms(1,4) by (simp add: kept0_emit[where I=P])
  then have "Q (fold (handle_event env) (exec_events env) (emit (FFmpegExec args) s))"
    by (rule assms(3))
  then have "Q (suspended AwaitExec env
                 (fold (handle_event env) (exec_events env) (emit (FFmpegExec args) s)))"
    using assms(2) by (simp add: kept0_suspended[where I=Q])
  then show ?thesis
    using assms(2) unfolding ffmpeg_exec_def Let_def
    by (auto intro!: kept0_storage[where I=Q] split: option.splits)
qed

lemma kept0_readFile: "kept0 I \<Longrightarrow> I s \<Longrightarrow> I (snd (ffmpeg_readFile p env s))"
  unfolding ffmpeg_readFile_def Let_def
  by (auto intro!: kept0_suspended[where I=I] kept0_emit[where I=I] split: sum.splits)

lemma kept0_rm: "kept0 I \<Longrightarrow> I s \<Longrightarrow> I (snd (ffmpeg_rm p env s))"
  unfolding ffmpeg_rm_def
  by (auto intro!: keep_andThen[where I=I] kept0_engine_call[where I=I]
        kept0_storage[where I=I])

text \<open>
  \<open>convertToWav\<close> takes a property \<open>P\<close> to a property \<open>Q\<close> when the events of the
  transcode do, \<open>P\<close> implies \<open>Q\<close>, and the engine-side effects keep both.
\<close>

lemma carry_convertToWav:
  assumes P: "kept0 P" and Q: "kept0 Q"
    and PQ: "\<And>s1. P s1 \<Longrightarrow> Q s1"
    and ev: "\<And>s1. P s1 \<Longrightarrow> Q (fold (handle_event env) (exec_events env) s1)"
    and s: "P s"
  shows "Q (snd (convertToWav f env s))"
proof -
  have tail: "Q (snd (andThen (ffmpeg_readFile outputFileName env s5) (\<lambda>outputData s6.
        andThen (ffmpeg_rm (inputFileName f) env s6) (\<lambda>_ s7.
        andThen (ffmpeg_rm outputFileName env s7) (\<lambda>_ s8.
        (Inr \<lparr>blob_data = outputData, blob_type = ''audio/wav''\<rparr>, s8))))))"
    if "Q s5" for s5
    using that Q
    by (auto intro!: keep_andThen[where I=Q] kept0_readFile[where I=Q] kept0_rm[where I=Q])
  have start: "P (snd (ensureFFmpeg env (s\<lparr>abortController := Some False\<rparr>)))"
    using P s by (simp add: kept0_ensureFFmpeg[where I=P] kept0_abortController[where I=P])
  show ?thesis
    unfolding convertToWav_def
    apply (rule keep_catch[where I=Q])
     apply (rule carry_andThen[where A=P and B=Q])
       apply (rule start)
      apply (erule PQ)
     apply (rule carry_andThen[where A=P and B=Q])
       apply (erule keep_check_signal)
      apply (erule PQ)
     apply (rule carry_andThen[where A=P and B=Q])
       apply (erule kept0_fetchFile[OF P])
      apply (erule PQ)
     apply (rule carry_andThen[where A=P and B=Q])
       apply (erule kept0_writeFile[OF P])
      apply (erule PQ)
     apply (rule keep_andThen[where I=Q])
      apply (rule carry_exec[where P=P and Q=Q, OF P Q])
       apply (erule ev)
      apply assumption
     apply (erule tail)
    apply simp
    done
qed

lemma kept_events: "kept I \<Longrightarrow> I s \<Longrightarrow> I (fold (handle_event env) evs s)"
proof (induction evs arbitrary: s)
  case Nil
  then show ?case by simp
next
  case (Cons ev evs)
  have "I (handle_event env ev s)"
    using Cons.prems
    by (cases ev)
       (simp_all add: on_progress_def on_log_def kept_updateProgress[where I=I]
          split: option.splits)
  with Cons show ?case by simp
qed

lemma kept_convertToWav: "kept I \<Longrightarrow> I s \<Longrightarrow> I (snd (convertToWav f env s))"
  by (rule carry_convertToWav[where P=I and Q=I])
     (simp_all add: kept_kept0 kept_events[where I=I])

lemma kept_transcribeAudio: "kept I \<Longrightarrow> I s \<Longrightarrow> I (snd (transcribeAudio c b env s))"
  unfolding transcribeAudio_def Let_def
  by (auto intro!: keep_catch[where I=I] kept_updateProgress[where I=I]
        kept0_emit[where I=I] kept_kept0 split: sum.splits)

lemma kept_segmentByTopics: "kept I \<Longrightarrow> I s \<Longrightarrow> I (snd (segmentByTopics c t env s))"
  unfolding segmentByTopics_def Let_def
  by (auto intro!: keep_catch[where I=I] kept_updateProgress[where I=I]
        kept0_emit[where I=I] kept_kept0 split: sum.splits)

lemma kept_step: "kept I \<Longrightarrow> I s \<Longrightarrow> I (step c s)"
  by (cases c)
     (simp_all add: kept_convertToWav[where I=I] kept_transcribeAudio[where I=I]
        kept_segmentByTopics[where I=I] kept0_cancel[where I=I] kept_kept0)

lemma kept_run: "kept I \<Longrightarrow> I s \<Longrightarrow> I (run cs s)"
  unfolding run_def by (induction cs arbitrary: s) (simp_all add: kept_step[where I=I])

section \<open>The progress objects\<close>

text \<open>
  Three properties that every effect keeps, and hence every state reached from a new
  instance has: all slots hold a fraction or \<open>NaN\<close>; the snapshots of an earlier state
  stay as they are; the callbacks have received the references 1, 2, ... in order, so that
  the snapshots delivered are the objects of the heap after the first.
\<close>

lemma in_unit_set_slot: "in_unit p \<Longrightarrow> in_unit (set_slot st (clamp v) p)"
  using clamp_range[of v] by (simp add: in_unit_def slot_set_slot)

lemma in_unit_converting: "in_unit p \<Longrightarrow> clamp (converting p) = converting p"
proof -
  assume "in_unit p"
  then have "slot Converting p = NaN \<or> is_fraction (slot Converting p)"
    unfolding in_unit_def by (rule spec)
  then show ?thesis by (simp add: clamp_id)
qed

lemma heap_ok_updateProgress: "heap_ok s \<Longrightarrow> heap_ok (updateProgress st v d s)"
proof -
  assume h: "heap_ok s"
  then have "in_unit (heap s ! 0)" by (simp add: heap_ok_def)
  then have n: "in_unit (set_slot st (clamp v) (heap s ! 0))" by (rule in_unit_set_slot)
  have "set (tl (heap s)) \<subseteq> set (heap s)" by (cases "heap s") auto
  with h n show ?thesis by (auto simp: heap_ok_def heap_updateProgress)
qed

lemma kept_heap_ok: "kept heap_ok"
  unfolding kept_def kept0_def
  by (intro conjI allI impI heap_ok_updateProgress) (simp_all add: heap_ok_def)

lemma heap_ok_new: "heap_ok new_AudioProcessor"
proof -
  have "in_unit \<lparr>converting = Num 0, transcribing = Num 0, analyzing = Num 0\<rparr>"
    by (simp add: in_unit_def)
  then show ?thesis by (simp add: heap_ok_def new_AudioProcessor_def)
qed

lemma heap_ok_run: "heap_ok (run calls new_AudioProcessor)"
  by (rule kept_run[where I=heap_ok, OF kept_heap_ok heap_ok_new])

lemma kept_snapshots_kept: "kept (snapshots_kept s0)"
  unfolding kept_def kept0_def snapshots_kept_def
  by (auto simp: nth_updateProgress_old)

lemma snapshots_kept_run: "snapshots_kept s (run cs s)"
  by (rule kept_run[where I="snapshots_kept s", OF kept_snapshots_kept])
     (simp add: snapshots_kept_def)

lemma callback_refs_append [simp]:
  "callback_refs (es @ es') = callback_refs es @ callback_refs es'"
  by (induction es rule: callback_refs.induct) simp_all

lemma refs_ok_updateProgress: "refs_ok s \<Longrightarrow> refs_ok (updateProgress st v d s)"
  unfolding refs_ok_def by (auto simp: heap_updateProgress Suc_leI)

lemma refs_ok_emit:
  assumes "\<And>st a d. ev \<noteq> Callback st a d" and "refs_ok s"
  shows "refs_ok (emit ev s)"
proof -
  have "callback_refs [ev] = []" using assms(1) by (cases ev) auto
  with assms(2) show ?thesis by (simp add: refs_ok_def)
qed

lemma kept_refs_ok: "kept refs_ok"
  unfolding kept_def kept0_def
  by (intro conjI allI impI refs_ok_updateProgress refs_ok_emit) (simp_all add: refs_ok_def)

lemma refs_ok_run: "refs_ok (run calls new_AudioProcessor)"
  by (rule kept_run[where I=refs_ok, OF kept_refs_ok])
     (simp add: refs_ok_def new_AudioProcessor_def)

lemma callback_in_refs:
  "Callback st a d \<in> set es \<Longrightarrow> a \<in> set (callback_refs es)"
  by (induction es rule: callback_refs.induct) auto

section \<open>No aborted controller is ever stored; the service stages\<close>

text \<open>
  The class assigns \<open>null\<close> or a new controller to \<open>abortController\<close> and nothing else,
  and \<open>cancel\<close> replaces the controller it aborts by \<open>null\<close>: no state holds an aborted
  controller, and the entry check of the two service stages never fires. Then the shape of
  a successful service stage.
\<close>

lemma kept_never_aborted: "kept never_aborted"
  by (simp add: kept_def kept0_def never_aborted_def)

lemma never_aborted_run: "never_aborted (run calls new_AudioProcessor)"
  by (rule kept_run[where I=never_aborted, OF kept_never_aborted])
     (simp add: never_aborted_def new_AudioProcessor_def)

lemma not_aborted_at_entry_run: "\<not> aborted_at_entry (run calls new_AudioProcessor)"
  using never_aborted_run[of calls]
  by (auto simp: never_aborted_def aborted_at_entry_def split: option.splits)

lemma heap_nonempty_run: "heap (run calls new_AudioProcessor) \<noteq> []"
  using heap_ok_run[of calls] by (simp add: heap_ok_def)




section \<open>Evaluation of the examples\<close>

text \<open>
  The definitions to unfold when a call is evaluated on concrete inputs.
\<close>

lemmas model_defs = convertToWav_def ensureFFmpeg_def toBlobURL_def engine_call_def suspended_def
  check_signal_def fetchFile_def ffmpeg_writeFile_def ffmpeg_exec_def ffmpeg_readFile_def
  ffmpeg_rm_def andThen_def catch_def emit_def updateProgress_def cancel_def on_progress_def
  on_log_def transcribeAudio_def segmentByTopics_def aborted_at_entry_def parse_first_choice_def
  new_AudioProcessor_def run_def Let_def exec_args_def outputFileName_def convertToWav_catch_def
  transcribeAudio_catch_def segmentByTopics_catch_def ensureFFmpeg_catch_def baseURL_def
  truthy_def scaled_def Math_round_def

lemma example_bitrate: "bitrate_match ''bitrate= 256.0kbits/s'' = Some ''256.0''"
  by (simp add: bitrate_at_def is_space_def is_digit_def)

section \<open>The log handler\<close>

text \<open>
  A matching log line re-reports the recorded value, which is stored again as it is.
\<close>

lemma on_log_match:
  assumes "heap_ok s" and "bitrate_match message = Some b"
  shows "trace (on_log message s) = trace s @
           [Callback Converting (length (heap s))
              (Some (no_details\<lparr>stage := Some ''Processing audio'',
                                bitrate := Some (b @ '' kbps'')\<rparr>))]
         \<and> slot Converting (heap (on_log message s) ! length (heap s)) = slot Converting (heap s ! 0)
         \<and> slot Converting (heap (on_log message s) ! 0) = slot Converting (heap s ! 0)"
proof -
  from assms(1) have ne: "heap s \<noteq> []" and u: "in_unit (heap s ! 0)"
    by (simp_all add: heap_ok_def)
  from u have c: "clamp (converting (heap s ! 0)) = converting (heap s ! 0)"
    by (rule in_unit_converting)
  show ?thesis
    using assms(2) ne c
    by (simp add: on_log_def nth_updateProgress_new nth_updateProgress_0)
qed

section \<open>Requests, and the order of the reported fractions\<close>

text \<open>
  The requests a stage sends; and, for a run of the three stages on a new instance, the
  order of the snapshots: a progress update with a value not below the recorded one keeps
  every slot non-decreasing along the snapshots.
\<close>

lemma requests_simps [simp]:
  "requests (emit ev s) = requests s @ (if is_request ev then [ev] else [])"
  "requests (updateProgress st v d s) = requests s"
  by (simp_all add: requests_def)

lemma mono_ok_updateProgress:
  assumes "mono_ok s" and "number_le (slot st (heap s ! 0)) (clamp v)"
  shows "mono_ok (updateProgress st v d s)"
proof -
  let ?p = "heap s ! 0" and ?p' = "set_slot st (clamp v) (heap s ! 0)"
  from assms(1) have ne: "heap s \<noteq> []" and u: "fraction_slots ?p"
    and so: "\<And>st'. sorted_wrt number_le (map (slot st') (tl (heap s)) @ [slot st' ?p])"
    by (simp_all add: mono_ok_def)
  have f: "is_fraction (clamp v)" using assms(2) by (rule number_le_clamp)
  have le: "number_le (slot st' ?p) (slot st' ?p')" for st'
    using assms(2) u by (simp add: slot_set_slot fraction_slots_def number_le_refl)
  have "sorted_wrt number_le (map (slot st') (tl (heap s) @ [?p']) @ [slot st' ?p'])" for st'
  proof -
    have 1: "sorted_wrt number_le (map (slot st') (tl (heap s)))"
      and 2: "\<And>x. x \<in> set (tl (heap s)) \<Longrightarrow> number_le (slot st' x) (slot st' ?p)"
      using so[of st'] by (auto simp: sorted_wrt_append)
    have 3: "number_le (slot st' x) (slot st' ?p')" if "x \<in> set (tl (heap s))" for x
      using 2[OF that] le[of st'] by (rule number_le_trans)
    have 4: "number_le (slot st' ?p') (slot st' ?p')"
      using f u by (simp add: slot_set_slot fraction_slots_def number_le_refl)
    show ?thesis using 1 3 4 by (auto simp: sorted_wrt_append)
  qed
  moreover have "fraction_slots ?p'"
    using u f by (simp add: fraction_slots_def slot_set_slot)
  ultimately show ?thesis
    using ne by (simp add: mono_ok_def heap_updateProgress)
qed

lemma fraction_slots_converting: "fraction_slots p \<Longrightarrow> clamp (converting p) = converting p"
proof -
  assume "fraction_slots p"
  then have "is_fraction (slot Converting p)" unfolding fraction_slots_def by (rule spec)
  then show ?thesis by (simp add: clamp_id)
qed

lemma events_mono:
  "sorted_wrt number_le (fractions evs) \<Longrightarrow> mono_ok s \<Longrightarrow> below_reports (fractions evs) s
   \<Longrightarrow> mono_ok (fold (handle_event env) evs s)
       \<and> (\<forall>st. st \<noteq> Converting \<longrightarrow>
             slot st (heap (fold (handle_event env) evs s) ! 0) = slot st (heap s ! 0))"
proof (induction evs arbitrary: s)
  case Nil
  then show ?case by simp
next
  case (Cons ev evs)
  from Cons.prems(2) have ne: "heap s \<noteq> []" and u: "fraction_slots (heap s ! 0)"
    by (simp_all add: mono_ok_def)
  show ?case
  proof (cases ev)
    case (ProgressEvent v t)
    let ?s1 = "handle_event env ev s"
    have s1: "?s1 = updateProgress Converting v
        (Some (no_details\<lparr>stage := Some ''Processing audio'',
                         duration := (if truthy t
                                      then Some (number_toString env
                                                   (scaled (1 / 100) (Math_round (scaled 100 t)))
                                                 @ ''s processed'')
                                      else None)\<rparr>)) s"
      by (simp add: ProgressEvent on_progress_def)
    have le: "number_le (slot Converting (heap s ! 0)) (clamp v)"
      using Cons.prems(3) by (simp add: below_reports_def ProgressEvent)
    have m1: "mono_ok ?s1" unfolding s1 using Cons.prems(2) le by (rule mono_ok_updateProgress)
    have h0: "heap ?s1 ! 0 = set_slot Converting (clamp v) (heap s ! 0)"
      unfolding s1 using ne by (rule nth_updateProgress_0)
    have b1: "below_reports (fractions evs) ?s1"
      using Cons.prems(1) unfolding below_reports_def h0
      by (auto simp: ProgressEvent intro: clamp_mono)
    have so: "sorted_wrt number_le (fractions evs)" using Cons.prems(1) by (simp add: ProgressEvent)
    from Cons.IH[OF so m1 b1] show ?thesis
      by (auto simp: h0 slot_converting_update)
  next
    case (LogEvent message)
    let ?s1 = "handle_event env ev s"
    have so: "sorted_wrt number_le (fractions evs)" using Cons.prems(1) by (simp add: LogEvent)
    show ?thesis
    proof (cases "bitrate_match message")
      case None
      then have "?s1 = s" by (simp add: LogEvent on_log_def)
      moreover have "below_reports (fractions evs) s"
        using Cons.prems(3) by (simp add: LogEvent below_reports_def)
      ultimately show ?thesis
        using Cons.IH[OF so Cons.prems(2)] by simp
    next
      case (Some b)
      then have s1: "?s1 = updateProgress Converting (converting (heap s ! 0))
            (Some (no_details\<lparr>stage := Some ''Processing audio'',
                              bitrate := Some (b @ '' kbps'')\<rparr>)) s"
        by (simp add: LogEvent on_log_def)
      have c: "clamp (converting (heap s ! 0)) = converting (heap s ! 0)"
        using u by (rule fraction_slots_converting)
      have "is_fraction (slot Converting (heap s ! 0))"
        using u unfolding fraction_slots_def by (rule spec)
      then have r: "number_le (slot Converting (heap s ! 0)) (converting (heap s ! 0))"
        by (simp add: number_le_refl)
      have m1: "mono_ok ?s1"
        unfolding s1 using Cons.prems(2) by (rule mono_ok_updateProgress) (simp only: c r)
      have h0: "heap ?s1 ! 0 = heap s ! 0"
        unfolding s1 using ne by (simp add: nth_updateProgress_0 c)
      have b1: "below_reports (fractions evs) ?s1"
        using Cons.prems(3) unfolding below_reports_def h0 by (simp add: LogEvent)
      from Cons.IH[OF so m1 b1] show ?thesis by (simp add: h0)
    qed
  qed
qed

lemma mono_ok_heap: "heap s' = heap s \<Longrightarrow> mono_ok s \<Longrightarrow> mono_ok s'"
  by (simp add: mono_ok_def)

lemma stage_mono:
  assumes "mono_ok s" and "slot st (heap s ! 0) = Num 0"
  shows "mono_ok (updateProgress st (Num (1 / 10)) None s)"
    and "mono_ok (emit ev (updateProgress st (Num (1 / 10)) None s))"
    and "mono_ok (updateProgress st (Num 1) None (emit ev (updateProgress st (Num (1 / 10)) None s)))"
    and "st' \<noteq> st \<Longrightarrow>
         slot st' (heap (emit ev (updateProgress st (Num (1 / 10)) None s)) ! 0)
           = slot st' (heap s ! 0)"
    and "st' \<noteq> st \<Longrightarrow>
         slot st' (heap (updateProgress st (Num 1) None
                           (emit ev (updateProgress st (Num (1 / 10)) None s))) ! 0)
           = slot st' (heap s ! 0)"
proof -
  let ?s1 = "updateProgress st (Num (1 / 10)) None s"
  let ?s3 = "updateProgress st (Num 1) None (emit ev ?s1)"
  from assms(1) have ne: "heap s \<noteq> []" by (simp add: mono_ok_def)
  show m1: "mono_ok ?s1"
    using assms(1) by (rule mono_ok_updateProgress) (simp add: assms(2))
  then show m2: "mono_ok (emit ev ?s1)" by (rule mono_ok_heap[rotated]) simp
  have h1: "heap ?s1 ! 0 = set_slot st (clamp (Num (1 / 10))) (heap s ! 0)"
    using ne by (rule nth_updateProgress_0)
  have ne2: "heap (emit ev ?s1) \<noteq> []" using m2 by (simp add: mono_ok_def)
  show "mono_ok ?s3"
    using m2 by (rule mono_ok_updateProgress) (simp add: h1 slot_set_slot)
  show "st' \<noteq> st \<Longrightarrow> slot st' (heap (emit ev ?s1) ! 0) = slot st' (heap s ! 0)"
    by (simp add: h1 slot_set_slot)
  have "heap ?s3 ! 0 = set_slot st (clamp (Num 1)) (heap (emit ev ?s1) ! 0)"
    using ne2 by (rule nth_updateProgress_0)
  then show "st' \<noteq> st \<Longrightarrow> slot st' (heap ?s3 ! 0) = slot st' (heap s ! 0)"
    by (simp add: h1 slot_set_slot)
qed

lemma transcribeAudio_state:
  "snd (transcribeAudio openai b env s)
     \<in> {s,
        emit (TranscriptionsCreate openai b ''whisper-1'' ''auto'')
          (updateProgress Transcribing (Num (1 / 10)) None s),
        updateProgress Transcribing (Num 1) None
          (emit (TranscriptionsCreate openai b ''whisper-1'' ''auto'')
             (updateProgress Transcribing (Num (1 / 10)) None s))}"
  by (simp add: transcribeAudio_def catch_def Let_def split: sum.splits)

lemma segmentByTopics_state:
  "snd (segmentByTopics openai t env s)
     \<in> {s,
        emit (ChatCompletionsCreate openai ''gpt-4'' (chat_messages t) ''json_object'')
          (updateProgress Analyzing (Num (1 / 10)) None s),
        updateProgress Analyzing (Num 1) None
          (emit (ChatCompletionsCreate openai ''gpt-4'' (chat_messages t) ''json_object'')
             (updateProgress Analyzing (Num (1 / 10)) None s))}"
  by (simp add: segmentByTopics_def catch_def Let_def split: sum.splits)

lemma transcribeAudio_mono:
  assumes "mono_ok s" and "fresh_stages s"
  shows "mono_ok (snd (transcribeAudio openai b env s))
         \<and> analyzing (heap (snd (transcribeAudio openai b env s)) ! 0) = Num 0"
proof -
  have t: "slot Transcribing (heap s ! 0) = Num 0" and a: "slot Analyzing (heap s ! 0) = Num 0"
    using assms(2) by (simp_all add: fresh_stages_def)
  note M = stage_mono(2,3)[OF assms(1) t,
               where ev="TranscriptionsCreate openai b ''whisper-1'' ''auto''"]
             stage_mono(4,5)[OF assms(1) t, where st'=Analyzing
               and ev="TranscriptionsCreate openai b ''whisper-1'' ''auto''"]
  show ?thesis
    using transcribeAudio_state[of openai b env s] M assms(1) a by auto
qed

lemma segmentByTopics_mono:
  assumes "mono_ok s" and "analyzing (heap s ! 0) = Num 0"
  shows "mono_ok (snd (segmentByTopics openai t env s))"
proof -
  have a: "slot Analyzing (heap s ! 0) = Num 0" using assms(2) by simp
  note M = stage_mono(2,3)[OF assms(1) a,
               where ev="ChatCompletionsCreate openai ''gpt-4'' (chat_messages t) ''json_object''"]
  show ?thesis
    using segmentByTopics_state[of openai t env s] M assms(1) by auto
qed

lemma convertToWav_mono:
  assumes "sorted_wrt number_le (fractions (exec_events env))"
    and "mono_ok s" and "fresh_stages s" and "below_reports (fractions (exec_events env)) s"
  shows "mono_ok (snd (convertToWav f env s)) \<and> fresh_stages (snd (convertToWav f env s))"
proof (rule carry_convertToWav[where
         P="\<lambda>s. mono_ok s \<and> fresh_stages s \<and> below_reports (fractions (exec_events env)) s"
         and Q="\<lambda>s. mono_ok s \<and> fresh_stages s"])
  show "kept0 (\<lambda>s. mono_ok s \<and> fresh_stages s \<and> below_reports (fractions (exec_events env)) s)"
    by (simp add: kept0_def mono_ok_def fresh_stages_def below_reports_def)
  show "kept0 (\<lambda>s. mono_ok s \<and> fresh_stages s)"
    by (simp add: kept0_def mono_ok_def fresh_stages_def)
  show "mono_ok s \<and> fresh_stages s \<and> below_reports (fractions (exec_events env)) s"
    using assms by simp
  fix s1
  assume p: "mono_ok s1 \<and> fresh_stages s1 \<and> below_reports (fractions (exec_events env)) s1"
  then show "mono_ok s1 \<and> fresh_stages s1" by simp
  from p events_mono[OF assms(1), of s1 env]
  show "mono_ok (fold (handle_event env) (exec_events env) s1)
        \<and> fresh_stages (fold (handle_event env) (exec_events env) s1)"
    by (simp add: fresh_stages_def) (metis ProcessStage.distinct(1,3) slot.simps(2,3))
qed

lemma nth_tail: "map ((!) xs) [Suc 0..<length xs] = tl xs"
  by (rule nth_equalityI) (simp_all add: nth_tl)

lemma delivered_tl: "refs_ok s \<Longrightarrow> delivered s = tl (heap s)"
  by (simp add: delivered_def refs_ok_def nth_tail)

lemma example_name: "inputFileName example_file = ''input.mp3''"
  by (simp add: inputFileName_def example_file_def lastIndexOf_def substring_def)

lemma mono_ok_delivered:
  assumes "mono_ok s" and "refs_ok s"
  shows "sorted_wrt number_le (map (slot st) (delivered s))"
  using assms by (simp add: delivered_tl mono_ok_def sorted_wrt_append)

lemma mono_ok_new:
  "mono_ok new_AudioProcessor" "fresh_stages new_AudioProcessor"
  "NaN \<notin> set vs \<Longrightarrow> below_reports vs new_AudioProcessor"
proof -
  show "mono_ok new_AudioProcessor"
    by (simp add: mono_ok_def new_AudioProcessor_def fraction_slots_def)
  show "fresh_stages new_AudioProcessor"
    by (simp add: fresh_stages_def new_AudioProcessor_def)
  show "below_reports vs new_AudioProcessor" if "NaN \<notin> set vs"
    unfolding below_reports_def
  proof
    fix v assume "v \<in> set vs"
    with that have "v \<noteq> NaN" by auto
    then have "is_fraction (clamp v)" by (rule clamp_fraction)
    then have "number_le (Num 0) (clamp v)" by (simp add: is_fraction_def)
    then show "number_le (converting (heap new_AudioProcessor ! 0)) (clamp v)"
      by (simp add: new_AudioProcessor_def)
  qed
qed

text \<open>
  When no report of the engine is \<open>NaN\<close>, every object holds fractions alone. A report
  that is \<open>NaN\<close> is stored and delivered as \<open>NaN\<close>.
\<close>

lemma fractions_only_updateProgress:
  assumes "fractions_only s" and "v \<noteq> NaN"
  shows "fractions_only (updateProgress st v d s)"
proof -
  from assms(1) have ne: "heap s \<noteq> []" and all: "\<And>p. p \<in> set (heap s) \<Longrightarrow> fraction_slots p"
    by (simp_all add: fractions_only_def)
  have "fraction_slots (heap s ! 0)" using ne by (intro all) simp
  then have n: "fraction_slots (set_slot st (clamp v) (heap s ! 0))"
    using clamp_fraction[OF assms(2)] by (simp add: fraction_slots_def slot_set_slot)
  have "set (tl (heap s)) \<subseteq> set (heap s)" by (cases "heap s") auto
  with all n show ?thesis using ne by (auto simp: fractions_only_def heap_updateProgress)
qed

lemma fractions_only_events:
  "NaN \<notin> set (fractions evs) \<Longrightarrow> fractions_only s
   \<Longrightarrow> fractions_only (fold (handle_event env) evs s)"
proof (induction evs arbitrary: s)
  case Nil
  then show ?case by simp
next
  case (Cons ev evs)
  have "fractions_only (handle_event env ev s) \<and> NaN \<notin> set (fractions evs)"
  proof (cases ev)
    case (ProgressEvent v t)
    with Cons.prems have "v \<noteq> NaN" and "NaN \<notin> set (fractions evs)" by auto
    with Cons.prems(2) show ?thesis
      by (simp add: ProgressEvent on_progress_def fractions_only_updateProgress)
  next
    case (LogEvent message)
    from Cons.prems(2) have "fraction_slots (heap s ! 0)"
      by (simp add: fractions_only_def)
    then have "is_fraction (slot Converting (heap s ! 0))"
      unfolding fraction_slots_def by (rule spec)
    then have "converting (heap s ! 0) \<noteq> NaN" by auto
    with Cons.prems LogEvent show ?thesis
      by (simp add: on_log_def fractions_only_updateProgress split: option.splits)
  qed
  with Cons.IH show ?case by simp
qed

lemma kept0_fractions_only: "kept0 fractions_only"
  by (simp add: kept0_def fractions_only_def)

lemma fractions_only_step:
  assumes "fractions_only s" and "NaN \<notin> set (reported c)"
  shows "fractions_only (step c s)"
proof (cases c)
  case (ConvertToWav f env)
  have "fractions_only (snd (convertToWav f env s))"
    using assms
    by (intro carry_convertToWav[where P=fractions_only and Q=fractions_only])
       (simp_all add: kept0_fractions_only fractions_only_events ConvertToWav)
  then show ?thesis by (simp add: ConvertToWav)
next
  case (TranscribeAudio openai b env)
  show ?thesis
    using transcribeAudio_state[of openai b env s] assms(1)
    by (auto simp: TranscribeAudio fractions_only_updateProgress
          kept0_emit[OF kept0_fractions_only])
next
  case (SegmentByTopics openai t env)
  show ?thesis
    using segmentByTopics_state[of openai t env s] assms(1)
    by (auto simp: SegmentByTopics fractions_only_updateProgress
          kept0_emit[OF kept0_fractions_only])
next
  case Cancel
  with assms(1) show ?thesis by (simp add: kept0_cancel[OF kept0_fractions_only])
qed

lemma fractions_only_run:
  "\<forall>c \<in> set calls. NaN \<notin> set (reported c) \<Longrightarrow> fractions_only (run calls new_AudioProcessor)"
proof -
  have n: "fractions_only new_AudioProcessor"
    by (simp add: fractions_only_def new_AudioProcessor_def fraction_slots_def)
  have "fractions_only s \<Longrightarrow> \<forall>c \<in> set cs. NaN \<notin> set (reported c)
        \<Longrightarrow> fractions_only (fold step cs s)" for cs s
    by (induction cs arbitrary: s) (simp_all add: fractions_only_step)
  with n show "\<forall>c \<in> set calls. NaN \<notin> set (reported c)
               \<Longrightarrow> fractions_only (run calls new_AudioProcessor)"
    by (simp add: run_def)
qed

lemma not_a_number_is_delivered:
  "map (slot Converting)
     (delivered (snd (convertToWav example_file undefined_progress_env new_AudioProcessor)))
     = [NaN]"
  by (simp add: model_defs undefined_progress_env_def example_env_def example_name delivered_def
        Math_max_def Math_min_def)

section \<open>What a call of convertToWav guarantees\<close>

text \<open>
  Rules for what holds after each step of \<open>convertToWav\<close>, one premise for each way the
  step can end, and what they give for the whole call: which deletions and which engine
  initializations it requests, and in what state it leaves the engine when \<open>cancel\<close> runs
  meanwhile.
\<close>

lemma removals_append [simp]: "removals (es @ es') = removals es @ removals es'"
  by (induction es rule: removals.induct) simp_all

lemma suspended_simps [simp]:
  "heap (suspended p env s) = heap s"
  "initialized (suspended p env s) = (if cancel_at env = Some p then False else initialized s)"
  "abortController (suspended p env s)
     = (if cancel_at env = Some p then None else abortController s)"
  "storage (suspended p env s) = (if cancel_at env = Some p then [] else storage s)"
  by (simp_all add: suspended_def)

lemma removals_cancel [simp]: "removals (trace (cancel s)) = removals (trace s)"
  by (simp add: trace_cancel split: option.splits)

lemma removals_suspended [simp]: "removals (trace (suspended p env s)) = removals (trace s)"
  by (simp add: suspended_def)

lemma handle_event_fields [simp]:
  "initialized (handle_event env ev s) = initialized s"
  "abortController (handle_event env ev s) = abortController s"
  "storage (handle_event env ev s) = storage s"
  "removals (trace (handle_event env ev s)) = removals (trace s)"
  by (cases ev; simp add: on_progress_def on_log_def split: option.splits)+

lemma events_fields [simp]:
  "initialized (fold (handle_event env) evs s) = initialized s"
  "abortController (fold (handle_event env) evs s) = abortController s"
  "storage (fold (handle_event env) evs s) = storage s"
  "removals (trace (fold (handle_event env) evs s)) = removals (trace s)"
  by (induction evs arbitrary: s) simp_all

lemma input_not_output: "inputFileName f \<noteq> outputFileName"
  by (simp add: inputFileName_def outputFileName_def)

lemma post_andThen: "post r (\<lambda>a s1. post (f a s1) Q E) E \<Longrightarrow> post (andThen r f) Q E"
  by (cases r) (simp add: post_def andThen_def split: sum.splits)

lemma post_catch: "post r Q (\<lambda>e s1. post (h e s1) Q E) \<Longrightarrow> post (catch r h) Q E"
  by (cases r) (simp add: post_def catch_def split: sum.splits)

lemma post_return: "Q a s \<Longrightarrow> post (Inr a, s) Q E"
  by (simp add: post_def)

lemma post_throw: "E e s \<Longrightarrow> post (Inl e, s) Q E"
  by (simp add: post_def)

lemma post_ok: "post r Q E \<Longrightarrow> fst r = Inr a \<Longrightarrow> Q a (snd r)"
  by (cases r) (simp add: post_def split: sum.splits)

lemma post_failed: "post r Q E \<Longrightarrow> fst r = Inl e \<Longrightarrow> E e (snd r)"
  by (cases r) (simp add: post_def split: sum.splits)

lemma post_never_ok: "post r (\<lambda>a s. False) E \<Longrightarrow> \<exists>e. fst r = Inl e \<and> E e (snd r)"
  by (cases r) (simp add: post_def split: sum.splits)

lemma post_engine_call:
  "(out = None \<Longrightarrow> Q () (suspended p env (emit ev s))) \<Longrightarrow>
   (\<And>e. out = Some e \<Longrightarrow> E e (suspended p env (emit ev s))) \<Longrightarrow>
   post (engine_call ev p out env s) Q E"
  by (simp add: engine_call_def Let_def post_def split: option.splits)

lemma post_toBlobURL:
  "(toBlobURL_outcome env url = None \<Longrightarrow>
      Q () (suspended (AwaitToBlobURL url) env (emit (ToBlobURL url mime) s))) \<Longrightarrow>
   (\<And>e. toBlobURL_outcome env url = Some e \<Longrightarrow>
      E e (suspended (AwaitToBlobURL url) env (emit (ToBlobURL url mime) s))) \<Longrightarrow>
   post (toBlobURL url mime env s) Q E"
  unfolding toBlobURL_def by (rule post_engine_call)

lemma post_check_signal:
  "(abortController s = None \<Longrightarrow> E (Error null_signal_message) s) \<Longrightarrow>
   (abortController s = Some True \<Longrightarrow> E (Error ''Operation cancelled'') s) \<Longrightarrow>
   (abortController s = Some False \<Longrightarrow> Q () s) \<Longrightarrow>
   post (check_signal s) Q E"
  by (simp add: check_signal_def post_def split: option.splits)

lemma post_fetchFile:
  "(fetchFile_outcome env = None \<Longrightarrow>
      Q (file_data f) (suspended AwaitFetchFile env (emit FetchFile s))) \<Longrightarrow>
   (\<And>e. fetchFile_outcome env = Some e \<Longrightarrow>
      E e (suspended AwaitFetchFile env (emit FetchFile s))) \<Longrightarrow>
   post (fetchFile f env s) Q E"
  unfolding fetchFile_def
  by (rule post_andThen, rule post_engine_call) (simp_all add: post_def)

lemma post_writeFile:
  "(writeFile_outcome env = None \<Longrightarrow>
      Q () ((suspended AwaitWriteFile env (emit (FFmpegWriteFile path data) s))
             \<lparr>storage := List.insert path
                 (storage (suspended AwaitWriteFile env (emit (FFmpegWriteFile path data) s)))\<rparr>)) \<Longrightarrow>
   (\<And>e. writeFile_outcome env = Some e \<Longrightarrow>
      E e (suspended AwaitWriteFile env (emit (FFmpegWriteFile path data) s))) \<Longrightarrow>
   post (ffmpeg_writeFile path data env s) Q E"
  unfolding ffmpeg_writeFile_def
  by (rule post_andThen, rule post_engine_call) (simp_all add: post_def)

lemma post_exec:
  "(exec_outcome env = None \<Longrightarrow>
      Q () ((suspended AwaitExec env
               (fold (handle_event env) (exec_events env) (emit (FFmpegExec args) s)))
             \<lparr>storage := List.insert (last args)
                 (storage (suspended AwaitExec env
                    (fold (handle_event env) (exec_events env) (emit (FFmpegExec args) s))))\<rparr>)) \<Longrightarrow>
   (\<And>e. exec_outcome env = Some e \<Longrightarrow>
      E e (suspended AwaitExec env
             (fold (handle_event env) (exec_events env) (emit (FFmpegExec args) s)))) \<Longrightarrow>
   post (ffmpeg_exec args env s) Q E"
  by (simp add: ffmpeg_exec_def Let_def post_def split: option.splits)

lemma post_readFile:
  "(\<And>data. readFile_outcome env = Inr data \<Longrightarrow>
      Q data (suspended AwaitReadFile env (emit (FFmpegReadFile path) s))) \<Longrightarrow>
   (\<And>e. readFile_outcome env = Inl e \<Longrightarrow>
      E e (suspended AwaitReadFile env (emit (FFmpegReadFile path) s))) \<Longrightarrow>
   post (ffmpeg_readFile path env s) Q E"
  by (simp add: ffmpeg_readFile_def Let_def post_def split: sum.splits)

lemma post_rm:
  "(rm_outcome env path = None \<Longrightarrow>
      Q () ((suspended (AwaitRm path) env (emit (FFmpegRm path) s))
             \<lparr>storage := removeAll path
                 (storage (suspended (AwaitRm path) env (emit (FFmpegRm path) s)))\<rparr>)) \<Longrightarrow>
   (\<And>e. rm_outcome env path = Some e \<Longrightarrow>
      E e (suspended (AwaitRm path) env (emit (FFmpegRm path) s))) \<Longrightarrow>
   post (ffmpeg_rm path env s) Q E"
  unfolding ffmpeg_rm_def
  by (rule post_andThen, rule post_engine_call) (simp_all add: post_def)

lemma post_rethrow: "post r Q (\<lambda>e. E (g e)) \<Longrightarrow> post r Q (\<lambda>e s1. post (Inl (g e), s1) Q E)"
  by (cases r) (simp add: post_def split: sum.splits)

lemma post_ensureFFmpeg:
  assumes "initialized s \<Longrightarrow> Q () s"
    and "\<not> initialized s \<Longrightarrow>
      post
        (andThen (toBlobURL (baseURL @ ''/ffmpeg-core.js'') ''text/javascript'' env
                    ((emit FFmpegNew s)\<lparr>storage := []\<rparr>)) (\<lambda>_ s2.
         andThen (toBlobURL (baseURL @ ''/ffmpeg-core.wasm'') ''application/wasm'' env s2) (\<lambda>_ s3.
         andThen (toBlobURL (baseURL @ ''/ffmpeg-core.worker.js'') ''text/javascript'' env s3) (\<lambda>_ s4.
         andThen (engine_call FFmpegLoad AwaitLoad (load_outcome env) env s4) (\<lambda>_ s5.
         (Inr (), s5\<lparr>initialized := True\<rparr>))))))
        Q (\<lambda>error. E (ensureFFmpeg_catch error))"
  shows "post (ensureFFmpeg env s) Q E"
proof (cases "initialized s")
  case True
  with assms(1) show ?thesis by (simp add: ensureFFmpeg_def post_def)
next
  case False
  show ?thesis
    unfolding ensureFFmpeg_def Let_def using False
    by (simp only: if_False) (rule post_catch, rule post_rethrow, rule assms(2)[OF False])
qed

lemmas post_steps = post_andThen post_catch post_return post_throw post_toBlobURL
  post_engine_call post_check_signal post_fetchFile post_writeFile post_exec post_readFile post_rm
  post_ensureFFmpeg

lemma set_storage_suspended [simp]:
  "set (storage (suspended p env s)) = (if cancel_at env = Some p then {} else set (storage s))"
  by (simp add: suspended_def)

lemma no_removal_when_exec_fails:
  "exec_outcome env = Some e \<Longrightarrow>
     post (convertToWav audioFile env s)
       (\<lambda>blob s'. False) (\<lambda>e s'. removals (trace s') = removals (trace s))"
  unfolding convertToWav_def
  by (intro post_steps) simp_all

lemma no_removal_when_readFile_fails:
  "readFile_outcome env = Inl e \<Longrightarrow>
     post (convertToWav audioFile env s)
       (\<lambda>blob s'. False) (\<lambda>e s'. removals (trace s') = removals (trace s))"
  unfolding convertToWav_def
  by (intro post_steps) simp_all

lemma cleanup_on_success:
  "post (convertToWav audioFile env s)
     (\<lambda>blob s'. removals (trace s') = removals (trace s) @ [inputFileName audioFile, outputFileName]
        \<and> inputFileName audioFile \<notin> set (storage s') \<and> outputFileName \<notin> set (storage s'))
     (\<lambda>e s'. True)"
  unfolding convertToWav_def
  by (intro post_steps) (simp_all add: input_not_output del: suspended_simps(4))

lemma initializations_simps [simp]:
  "initializations (emit ev s) = initializations s @ (if is_initialization ev then [ev] else [])"
  "initializations (cancel s) = initializations s"
  "initializations (suspended p env s) = initializations s"
  "initializations (updateProgress st v d s) = initializations s"
  "initializations (s\<lparr>storage := x\<rparr>) = initializations s"
  "initializations (s\<lparr>initialized := b\<rparr>) = initializations s"
  "initializations (s\<lparr>abortController := c\<rparr>) = initializations s"
  by (simp_all add: initializations_def suspended_def trace_cancel split: option.splits)

lemma initializations_events [simp]:
  "initializations (fold (handle_event env) evs s) = initializations s"
proof (induction evs arbitrary: s)
  case Nil
  then show ?case by simp
next
  case (Cons ev evs)
  have "initializations (handle_event env ev s) = initializations s"
    by (cases ev) (simp_all add: on_progress_def on_log_def split: option.splits)
  with Cons show ?case by simp
qed

lemma terminations_simps [simp]:
  "terminations (emit ev s) = terminations s @ (if ev = FFmpegTerminate then [ev] else [])"
  "terminations (cancel s) = terminations s @ [FFmpegTerminate]"
  "terminations (suspended p env s)
     = terminations s @ (if cancel_at env = Some p then [FFmpegTerminate] else [])"
  "terminations (updateProgress st v d s) = terminations s"
  "terminations (s\<lparr>storage := x\<rparr>) = terminations s"
  "terminations (s\<lparr>initialized := b\<rparr>) = terminations s"
  "terminations (s\<lparr>abortController := c\<rparr>) = terminations s"
  by (simp_all add: terminations_def suspended_def trace_cancel split: option.splits)

lemma terminations_events [simp]:
  "terminations (fold (handle_event env) evs s) = terminations s"
proof (induction evs arbitrary: s)
  case Nil
  then show ?case by simp
next
  case (Cons ev evs)
  have "terminations (handle_event env ev s) = terminations s"
    by (cases ev) (simp_all add: on_progress_def on_log_def split: option.splits)
  with Cons show ?case by simp
qed

lemma post_never_fails: "post r Q (\<lambda>e s. False) \<Longrightarrow> \<exists>a. fst r = Inr a \<and> Q a (snd r)"
  by (cases r) (simp add: post_def split: sum.splits)

lemma convert_initializes:
  "\<not> initialized s \<Longrightarrow> \<forall>url. toBlobURL_outcome env url = None \<Longrightarrow> load_outcome env = None \<Longrightarrow>
   post (convertToWav audioFile env s)
     (\<lambda>blob s'. initializations s' = initializations s @ engine_initialization)
     (\<lambda>e s'. initializations s' = initializations s @ engine_initialization)"
  unfolding convertToWav_def
  by (intro post_steps) (simp_all add: engine_initialization_def)

lemma convert_reuses:
  "initialized s \<Longrightarrow>
   post (convertToWav audioFile env s)
     (\<lambda>blob s'. initializations s' = initializations s)
     (\<lambda>e s'. initializations s' = initializations s)"
  unfolding convertToWav_def
  by (intro post_steps) simp_all

lemma convert_leaves_initialized:
  "cancel_at env = None \<Longrightarrow>
   post (convertToWav audioFile env s) (\<lambda>blob s'. initialized s') (\<lambda>e s'. True)"
  unfolding convertToWav_def
  by (intro post_steps) simp_all

lemma convert_after_cancel:
  assumes "\<forall>url. toBlobURL_outcome env url = None" "load_outcome env = None"
    "fetchFile_outcome env = None" "writeFile_outcome env = None" "exec_outcome env = None"
    "readFile_outcome env = Inr data" "\<forall>path. rm_outcome env path = None" "cancel_at env = None"
  shows "post (convertToWav audioFile env (cancel s))
     (\<lambda>blob s'. blob = \<lparr>blob_data = data, blob_type = ''audio/wav''\<rparr>
        \<and> initializations s' = initializations s @ engine_initialization
        \<and> abortController s' = Some False)
     (\<lambda>e s'. False)"
  unfolding convertToWav_def using assms
  by (intro post_steps) (simp_all add: engine_initialization_def)

lemma cancel_during_exec:
  assumes "cancel_at env = Some AwaitExec"
    "\<forall>url. toBlobURL_outcome env url = None" "load_outcome env = None"
    "fetchFile_outcome env = None" "writeFile_outcome env = None"
    "exec_outcome env = Some (Error message)"
  shows "post (convertToWav audioFile env s)
     (\<lambda>blob s'. False)
     (\<lambda>e s'. e = (if message = ''Operation cancelled'' then Error ''Operation cancelled''
                   else Error (''Failed to convert audio: '' @ message))
        \<and> \<not> initialized s' \<and> abortController s' = None \<and> storage s' = [])"
  unfolding convertToWav_def using assms
  by (intro post_steps) (simp_all add: convertToWav_catch_def)

lemma cancel_after_initialization:
  assumes "cancel_at env = Some p" "p \<noteq> AwaitLoad" "\<forall>url. p \<noteq> AwaitToBlobURL url"
  shows "post (convertToWav audioFile env s)
     (\<lambda>blob s'. terminations s' \<noteq> terminations s \<longrightarrow> \<not> initialized s' \<and> abortController s' = None)
     (\<lambda>e s'. terminations s' \<noteq> terminations s \<longrightarrow> \<not> initialized s' \<and> abortController s' = None)"
  unfolding convertToWav_def using assms
  by (intro post_steps) simp_all

lemma quiet_env_simps [simp]:
  "toBlobURL_outcome quiet_env url = None" "load_outcome quiet_env = None"
  "fetchFile_outcome quiet_env = None" "writeFile_outcome quiet_env = None"
  "exec_outcome quiet_env = None" "readFile_outcome quiet_env = Inr [82, 73, 70, 70]"
  "rm_outcome quiet_env path = None" "cancel_at quiet_env = None" "exec_events quiet_env = []"
  by (simp_all add: quiet_env_def example_env_def)

lemma last_exec_args [simp]: "last (exec_args audioFile) = outputFileName"
  by (simp add: exec_args_def)

lemma quiet_convert:
  "convertToWav example_file quiet_env new_AudioProcessor
     = (Inr example_blob,
        \<lparr>initialized = True, abortController = Some False,
         heap = [\<lparr>converting = Num 0, transcribing = Num 0, analyzing = Num 0\<rparr>],
         storage = [],
         trace = FFmpegNew # engine_initialization
                 @ [FetchFile, FFmpegWriteFile ''input.mp3'' [73, 68, 51],
                    FFmpegExec (exec_args example_file),
                    FFmpegReadFile ''output.wav'', FFmpegRm ''input.mp3'',
                    FFmpegRm ''output.wav'']\<rparr>)"
  by (simp add: convertToWav_def ensureFFmpeg_def toBlobURL_def engine_call_def suspended_def
        check_signal_def fetchFile_def ffmpeg_writeFile_def ffmpeg_exec_def ffmpeg_readFile_def
        ffmpeg_rm_def andThen_def catch_def emit_def new_AudioProcessor_def Let_def
        outputFileName_def example_name example_blob_def engine_initialization_def
        example_file_def[THEN arg_cong, of file_data])

lemma post_state: "post r (\<lambda>a. I) (\<lambda>e. I) \<Longrightarrow> I (snd r)"
  by (cases r) (simp add: post_def split: sum.splits)

lemmas convert_defs = convertToWav_def ensureFFmpeg_def toBlobURL_def engine_call_def
  suspended_def check_signal_def fetchFile_def ffmpeg_writeFile_def ffmpeg_exec_def
  ffmpeg_readFile_def ffmpeg_rm_def andThen_def catch_def emit_def cancel_def Let_def
  outputFileName_def convertToWav_catch_def

section \<open>The history of the snapshots\<close>

text \<open>
  Every operation of the class keeps the history regular, whatever the environment does and
  wherever a call stops.
\<close>

lemma history_ok_updateProgress:
  assumes "history_ok s" and "with_bitrate d \<Longrightarrow> st = Converting \<and> v = converting (heap s ! 0)"
  shows "history_ok (updateProgress st v d s)"
proof -
  let ?h = "heap s" and ?n = "length (heap s)"
  let ?p' = "set_slot st (clamp v) (heap s ! 0)"
  let ?s' = "updateProgress st v d s"
  from assms(1) have ne: "?h \<noteq> []" and u: "in_unit (?h ! 0)"
    and refs: "callback_refs (trace s) = [1..<?n]"
    and rec: "\<And>st. slot st (?h ! 0) = recorded_before st s ?n"
    and old: "\<And>st a d. Callback st a d \<in> set (trace s) \<Longrightarrow>
        (\<forall>st'. st' \<noteq> st \<longrightarrow> slot st' (?h ! a) = recorded_before st' s a) \<and>
        (with_bitrate d \<longrightarrow> st = Converting \<and> slot st (?h ! a) = recorded_before st s a)"
    by (simp_all add: history_ok_def)
  have n: "0 < ?n" using ne by simp
  have new: "heap ?s' ! ?n = ?p'" using ne by (rule nth_updateProgress_new)
  have zero: "heap ?s' ! 0 = ?p'" using ne by (rule nth_updateProgress_0)
  have keep: "heap ?s' ! a = ?h ! a" if "0 < a" "a < ?n" for a
    using that by (rule nth_updateProgress_old)
  have before: "recorded_before st' ?s' a = recorded_before st' s a" if "0 < a" "a \<le> ?n" for st' a
    using that keep[of "a - 1"] by (auto simp: recorded_before_def)
  have range: "a \<in> set (callback_refs (trace s)) \<Longrightarrow> 0 < a \<and> a < ?n" for a
    by (simp add: refs)
  have u': "in_unit ?p'" using u by (rule in_unit_set_slot)
  have r': "callback_refs (trace ?s') = [1..<length (heap ?s')]"
    using refs n by (simp add: Suc_leI)
  have rec': "slot st'' (heap ?s' ! 0) = recorded_before st'' ?s' (length (heap ?s'))" for st''
    using n by (simp add: zero recorded_before_def new)
  have cbs: "(\<forall>st'. st' \<noteq> sta \<longrightarrow> slot st' (heap ?s' ! a) = recorded_before st' ?s' a) \<and>
        (with_bitrate da \<longrightarrow> sta = Converting \<and> slot sta (heap ?s' ! a) = recorded_before sta ?s' a)"
    if "Callback sta a da \<in> set (trace ?s')" for sta a da
  proof (cases "Callback sta a da \<in> set (trace s)")
    case True
    then have a: "0 < a \<and> a < ?n" by (intro range callback_in_refs)
    with old[OF True] show ?thesis by (auto simp: keep before)
  next
    case False
    with that have e: "sta = st" "a = ?n" "da = d" by simp_all
    have "slot st' (heap ?s' ! ?n) = recorded_before st' ?s' ?n" if "st' \<noteq> st" for st'
      using that rec[of st'] n by (simp add: new before slot_set_slot)
    moreover have "st = Converting \<and> slot st (heap ?s' ! ?n) = recorded_before st ?s' ?n"
      if "with_bitrate d"
    proof -
      from assms(2)[OF that] have c: "st = Converting" and v: "v = converting (?h ! 0)" by simp_all
      from u have m: "clamp v = converting (?h ! 0)"
        unfolding v by (rule in_unit_converting)
      have "slot st (heap ?s' ! ?n) = slot st ?p'" by (simp only: new)
      also have "\<dots> = clamp v" by (simp add: slot_set_slot)
      also have "\<dots> = slot st (?h ! 0)" by (simp add: m c)
      also have "\<dots> = recorded_before st s ?n" by (rule rec)
      also have "\<dots> = recorded_before st ?s' ?n" using n by (simp add: before)
      finally show ?thesis using c by simp
    qed
    ultimately show ?thesis unfolding e by (intro conjI allI impI) (auto simp del: slot.simps)
  qed
  have ne': "heap ?s' \<noteq> []" using ne by (simp add: heap_updateProgress)
  show ?thesis
    unfolding history_ok_def
  proof (intro conjI allI impI)
    show "heap ?s' \<noteq> []" by (rule ne')
    show "in_unit (heap ?s' ! 0)" using u' by (simp only: zero)
    show "callback_refs (trace ?s') = [1..<length (heap ?s')]" by (rule r')
    show "slot st'' (heap ?s' ! 0) = recorded_before st'' ?s' (length (heap ?s'))" for st''
      by (rule rec')
    show "slot st' (heap ?s' ! a) = recorded_before st' ?s' a"
      if "Callback sta a da \<in> set (trace ?s')" "st' \<noteq> sta" for sta a da st'
      using cbs[OF that(1)] that(2) by auto
    show "sta = Converting" if "Callback sta a da \<in> set (trace ?s')" "with_bitrate da" for sta a da
      using cbs[OF that(1)] that(2) by auto
    show "slot sta (heap ?s' ! a) = recorded_before sta ?s' a"
      if "Callback sta a da \<in> set (trace ?s')" "with_bitrate da" for sta a da
      using cbs[OF that(1)] that(2) by auto
  qed
qed

lemma history_ok_emit:
  assumes "\<And>st a d. ev \<noteq> Callback st a d" and "history_ok s"
  shows "history_ok (emit ev s)"
proof -
  have r: "callback_refs [ev] = []" using assms(1) by (cases ev) auto
  have c: "Callback st a d \<in> set (trace (emit ev s)) \<longleftrightarrow> Callback st a d \<in> set (trace s)"
    for st a d using assms(1) by auto
  have b: "recorded_before st (emit ev s) a = recorded_before st s a" for st a
    by (simp add: recorded_before_def)
  show ?thesis
    using assms(2) unfolding history_ok_def c b by (simp add: r)
qed

lemma history_ok_fields:
  "heap s' = heap s \<Longrightarrow> trace s' = trace s \<Longrightarrow> history_ok s \<Longrightarrow> history_ok s'"
  by (simp add: history_ok_def recorded_before_def)

lemma kept0_history_ok: "kept0 history_ok"
  unfolding kept0_def
proof (intro conjI allI impI)
  show "history_ok (emit ev s)" if "\<forall>st a d. ev \<noteq> Callback st a d" "history_ok s" for s ev
    using that by (intro history_ok_emit) simp_all
  show "history_ok (s\<lparr>storage := x\<rparr>)" if "history_ok s" for s x
    using that by (rule history_ok_fields[rotated 2]) simp_all
  show "history_ok (s\<lparr>initialized := b\<rparr>)" if "history_ok s" for s b
    using that by (rule history_ok_fields[rotated 2]) simp_all
  show "history_ok (s\<lparr>abortController := None\<rparr>)" if "history_ok s" for s
    using that by (rule history_ok_fields[rotated 2]) simp_all
  show "history_ok (s\<lparr>abortController := Some False\<rparr>)" if "history_ok s" for s
    using that by (rule history_ok_fields[rotated 2]) simp_all
qed

lemma without_bitrate [simp]:
  "\<not> with_bitrate None"
  "\<not> with_bitrate (Some (no_details\<lparr>stage := x, duration := y\<rparr>))"
  "with_bitrate (Some (no_details\<lparr>stage := x, bitrate := Some b\<rparr>))"
  by (simp_all add: with_bitrate_def no_details_def)

lemma history_ok_events: "history_ok s \<Longrightarrow> history_ok (fold (handle_event env) evs s)"
proof (induction evs arbitrary: s)
  case Nil
  then show ?case by simp
next
  case (Cons ev evs)
  have "history_ok (handle_event env ev s)"
  proof (cases ev)
    case (ProgressEvent v t)
    show ?thesis
      unfolding ProgressEvent handle_event.simps on_progress_def
      using Cons.prems by (rule history_ok_updateProgress) simp
  next
    case (LogEvent message)
    show ?thesis
    proof (cases "bitrate_match message")
      case None
      with Cons.prems show ?thesis by (simp add: LogEvent on_log_def)
    next
      case (Some b)
      have "history_ok (updateProgress Converting (converting (heap s ! 0))
              (Some (no_details\<lparr>stage := Some ''Processing audio'',
                                bitrate := Some (b @ '' kbps'')\<rparr>)) s)"
        using Cons.prems by (rule history_ok_updateProgress) simp
      then show ?thesis by (simp add: LogEvent on_log_def Some)
    qed
  qed
  with Cons.IH show ?case by simp
qed

lemma history_ok_convertToWav: "history_ok s \<Longrightarrow> history_ok (snd (convertToWav f env s))"
  by (rule carry_convertToWav[where P=history_ok and Q=history_ok])
     (simp_all add: kept0_history_ok history_ok_events)

lemma history_ok_stage:
  assumes "history_ok s" and "\<And>st a d. ev \<noteq> Callback st a d"
  shows "history_ok (emit ev (updateProgress st v None s))"
    and "history_ok (updateProgress st w None (emit ev (updateProgress st v None s)))"
proof -
  have 1: "history_ok (updateProgress st v None s)"
    using assms(1) by (rule history_ok_updateProgress) simp
  show 2: "history_ok (emit ev (updateProgress st v None s))"
    using assms(2) 1 by (rule history_ok_emit)
  show "history_ok (updateProgress st w None (emit ev (updateProgress st v None s)))"
    using 2 by (rule history_ok_updateProgress) simp
qed

lemma history_ok_step: "history_ok s \<Longrightarrow> history_ok (step c s)"
proof (cases c)
  case (ConvertToWav f env)
  assume "history_ok s"
  then show ?thesis by (simp add: ConvertToWav history_ok_convertToWav)
next
  case (TranscribeAudio openai b env)
  assume h: "history_ok s"
  show ?thesis
    using transcribeAudio_state[of openai b env s] h
      history_ok_stage[OF h, of "TranscriptionsCreate openai b ''whisper-1'' ''auto''"]
    by (auto simp: TranscribeAudio)
next
  case (SegmentByTopics openai t env)
  assume h: "history_ok s"
  show ?thesis
    using segmentByTopics_state[of openai t env s] h
      history_ok_stage[OF h,
        of "ChatCompletionsCreate openai ''gpt-4'' (chat_messages t) ''json_object''"]
    by (auto simp: SegmentByTopics)
next
  case Cancel
  assume "history_ok s"
  then show ?thesis by (simp add: Cancel kept0_cancel[OF kept0_history_ok])
qed

lemma history_ok_run: "history_ok (run calls new_AudioProcessor)"
proof -
  have z: "slot st \<lparr>converting = Num 0, transcribing = Num 0, analyzing = Num 0\<rparr> = Num 0" for st
    by simp
  have "in_unit (heap new_AudioProcessor ! 0)"
    using heap_ok_new by (simp add: heap_ok_def)
  then have n: "history_ok new_AudioProcessor"
    by (simp add: history_ok_def recorded_before_def) (simp add: new_AudioProcessor_def z)
  have "history_ok s \<Longrightarrow> history_ok (fold step cs s)" for cs s
    by (induction cs arbitrary: s) (simp_all add: history_ok_step)
  with n show ?thesis by (simp add: run_def)
qed

section \<open>The claims\<close>

text \<open>
  Against C1 as stated: on a new instance \<open>cancel\<close> and then \<open>convertToWav\<close>, with an
  engine whose calls all succeed, returns the converted audio after loading the engine and
  running the transcode; and \<open>transcribeAudio\<close> after a conversion and a \<open>cancel\<close>
  succeeds.
\<close>

theorem cancel_before_convert_counterexample:
  "fst (convertToWav example_file quiet_env (cancel new_AudioProcessor)) = Inr example_blob
   \<and> FFmpegLoad \<in> set (trace (snd (convertToWav example_file quiet_env (cancel new_AudioProcessor))))
   \<and> FFmpegExec (exec_args example_file)
       \<in> set (trace (snd (convertToWav example_file quiet_env (cancel new_AudioProcessor))))
   \<and> fst (transcribeAudio example_client example_blob example_tenv
            (cancel (snd (convertToWav example_file quiet_env new_AudioProcessor))))
       = Inr ''We discussed the budget.''"
proof -
  have "convertToWav example_file quiet_env (cancel new_AudioProcessor)
     = (Inr example_blob,
        \<lparr>initialized = True, abortController = Some False,
         heap = [\<lparr>converting = Num 0, transcribing = Num 0, analyzing = Num 0\<rparr>],
         storage = [],
         trace = [FFmpegNew, FFmpegTerminate] @ engine_initialization
                 @ [FetchFile, FFmpegWriteFile ''input.mp3'' [73, 68, 51],
                    FFmpegExec (exec_args example_file),
                    FFmpegReadFile ''output.wav'', FFmpegRm ''input.mp3'',
                    FFmpegRm ''output.wav'']\<rparr>)"
    by (simp add: convert_defs new_AudioProcessor_def example_name example_blob_def
          engine_initialization_def example_file_def[THEN arg_cong, of file_data])
  moreover have "fst (transcribeAudio example_client example_blob example_tenv
            (cancel (snd (convertToWav example_file quiet_env new_AudioProcessor))))
       = Inr ''We discussed the budget.''"
    by (simp add: quiet_convert transcribeAudio_def aborted_at_entry_def catch_def Let_def
          example_tenv_def)
  ultimately show ?thesis by (simp add: engine_initialization_def)
qed

text \<open>
  Claim C1, as the code has it. \<open>cancel\<close> leaves the engine uninitialized. A
  \<open>convertToWav\<close> that follows starts with a new controller that is not aborted,
  initializes the engine again and, when every engine call succeeds and nobody cancels
  meanwhile, returns the bytes read back as an \<open>audio/wav\<close> blob.
\<close>

theorem cancel_before_convert_only_resets_the_engine:
  assumes "\<forall>url. toBlobURL_outcome env url = None" "load_outcome env = None"
    "fetchFile_outcome env = None" "writeFile_outcome env = None" "exec_outcome env = None"
    "readFile_outcome env = Inr data" "\<forall>path. rm_outcome env path = None" "cancel_at env = None"
  shows "\<not> initialized (cancel s)
     \<and> fst (convertToWav audioFile env (cancel s))
         = Inr \<lparr>blob_data = data, blob_type = ''audio/wav''\<rparr>
     \<and> initializations (snd (convertToWav audioFile env (cancel s)))
         = initializations s @ engine_initialization
     \<and> abortController (snd (convertToWav audioFile env (cancel s))) = Some False"
  using post_never_fails[OF convert_after_cancel[OF assms, of audioFile s]] by auto

theorem cancel_before_convert_only_resets_the_engine_witness:
  "fst (convertToWav example_file quiet_env (cancel new_AudioProcessor))
     = Inr \<lparr>blob_data = [82, 73, 70, 70], blob_type = ''audio/wav''\<rparr>
   \<and> initializations (snd (convertToWav example_file quiet_env (cancel new_AudioProcessor)))
     = initializations new_AudioProcessor @ engine_initialization"
  using cancel_before_convert_only_resets_the_engine[where env=quiet_env
          and data="[82, 73, 70, 70]" and audioFile=example_file and s=new_AudioProcessor]
  by simp

text \<open>
  Against C2 as stated: when the transcode call fails, no deletion is requested and the
  input entry stays in the working storage.
\<close>

theorem cleanup_skipped_counterexample:
  "fst (convertToWav example_file failing_exec_env new_AudioProcessor)
     = Inl (Error ''Failed to convert audio: Conversion failed'')
   \<and> removals (trace (snd (convertToWav example_file failing_exec_env new_AudioProcessor))) = []
   \<and> storage (snd (convertToWav example_file failing_exec_env new_AudioProcessor)) = [''input.mp3'']"
  by (simp add: convertToWav_def ensureFFmpeg_def toBlobURL_def engine_call_def suspended_def
        check_signal_def fetchFile_def ffmpeg_writeFile_def ffmpeg_exec_def
        andThen_def catch_def emit_def new_AudioProcessor_def Let_def convertToWav_catch_def
        example_name failing_exec_env_def)

text \<open>
  Claim C2, as the code has it. The two deletions are the last steps of the \<open>try\<close> block.
  A call that returns the audio has requested the deletion of the input entry and then of
  the output entry, and neither name is left in the working storage. A call in which the
  transcode or the read-back fails does fail, and requests no deletion at all.
\<close>

theorem cleanup_runs_on_the_success_path_only:
  "(\<forall>blob. fst (convertToWav audioFile env s) = Inr blob \<longrightarrow>
       removals (trace (snd (convertToWav audioFile env s)))
         = removals (trace s) @ [inputFileName audioFile, outputFileName]
       \<and> inputFileName audioFile \<notin> set (storage (snd (convertToWav audioFile env s)))
       \<and> outputFileName \<notin> set (storage (snd (convertToWav audioFile env s))))
   \<and> ((\<exists>e. exec_outcome env = Some e) \<or> (\<exists>e. readFile_outcome env = Inl e) \<longrightarrow>
       (\<exists>e. fst (convertToWav audioFile env s) = Inl e)
       \<and> removals (trace (snd (convertToWav audioFile env s))) = removals (trace s))"
proof (intro conjI allI impI)
  fix blob assume ok: "fst (convertToWav audioFile env s) = Inr blob"
  note S = post_ok[OF cleanup_on_success ok]
  from S show "removals (trace (snd (convertToWav audioFile env s)))
         = removals (trace s) @ [inputFileName audioFile, outputFileName]" by simp
  from S show "inputFileName audioFile \<notin> set (storage (snd (convertToWav audioFile env s)))"
    by simp
  from S show "outputFileName \<notin> set (storage (snd (convertToWav audioFile env s)))" by simp
next
  assume f: "(\<exists>e. exec_outcome env = Some e) \<or> (\<exists>e. readFile_outcome env = Inl e)"
  then have "\<exists>e. fst (convertToWav audioFile env s) = Inl e
        \<and> removals (trace (snd (convertToWav audioFile env s))) = removals (trace s)"
    using post_never_ok[OF no_removal_when_exec_fails, of env _ audioFile s]
      post_never_ok[OF no_removal_when_readFile_fails, of env _ audioFile s]
    by blast
  then show "\<exists>e. fst (convertToWav audioFile env s) = Inl e"
    and "removals (trace (snd (convertToWav audioFile env s))) = removals (trace s)" by blast+
qed

theorem cleanup_runs_on_the_success_path_only_witness:
  "fst (convertToWav example_file quiet_env new_AudioProcessor) = Inr example_blob
   \<and> removals (trace (snd (convertToWav example_file quiet_env new_AudioProcessor)))
       = [''input.mp3'', ''output.wav'']
   \<and> exec_outcome failing_exec_env = Some (Error ''Conversion failed'')
   \<and> removals (trace (snd (convertToWav example_file failing_exec_env new_AudioProcessor))) = []"
proof -
  have ok: "fst (convertToWav example_file quiet_env new_AudioProcessor) = Inr example_blob"
    by (simp add: quiet_convert)
  have f: "exec_outcome failing_exec_env = Some (Error ''Conversion failed'')"
    by (simp add: failing_exec_env_def)
  have n: "removals (trace new_AudioProcessor) = []"
    by (simp add: new_AudioProcessor_def)
  have 1: "removals (trace (snd (convertToWav example_file quiet_env new_AudioProcessor)))
       = removals (trace new_AudioProcessor) @ [inputFileName example_file, outputFileName]"
    using cleanup_runs_on_the_success_path_only[of example_file quiet_env new_AudioProcessor] ok
    by blast
  have 2: "removals (trace (snd (convertToWav example_file failing_exec_env new_AudioProcessor)))
       = removals (trace new_AudioProcessor)"
    using cleanup_runs_on_the_success_path_only[of example_file failing_exec_env new_AudioProcessor] f
    by blast
  show ?thesis using ok f 1 2 n by (simp add: example_name outputFileName_def)
qed

text \<open>
  Against C3 as stated: the engine reports 0.5 and then 0.3, and the second snapshot holds
  less in the \<open>converting\<close> slot than the first.
\<close>

theorem progress_regresses_counterexample:
  "map (slot Converting)
     (delivered (snd (convertToWav example_file regressing_env new_AudioProcessor)))
     = [Num (1 / 2), Num (3 / 10)]
   \<and> \<not> sorted_wrt number_le
         (map (slot Converting)
            (delivered (snd (convertToWav example_file regressing_env new_AudioProcessor))))"
proof -
  have h: "heap (snd (convertToWav example_file regressing_env new_AudioProcessor))
     = [\<lparr>converting = Num (3 / 10), transcribing = Num 0, analyzing = Num 0\<rparr>,
        \<lparr>converting = Num (1 / 2), transcribing = Num 0, analyzing = Num 0\<rparr>,
        \<lparr>converting = Num (3 / 10), transcribing = Num 0, analyzing = Num 0\<rparr>]"
    by (simp add: model_defs regressing_env_def example_env_def example_name)
  have r: "callback_refs (trace (snd (convertToWav example_file regressing_env new_AudioProcessor)))
     = [1, 2]"
    by (simp add: model_defs regressing_env_def example_env_def example_name)
  have e: "map (slot Converting)
     (delivered (snd (convertToWav example_file regressing_env new_AudioProcessor)))
     = [Num (1 / 2), Num (3 / 10)]"
    by (simp add: delivered_def h r)
  have n: "\<not> sorted_wrt number_le [Num (1 / 2), Num (3 / 10)]" by simp
  show ?thesis
  proof (intro conjI)
    show "map (slot Converting)
       (delivered (snd (convertToWav example_file regressing_env new_AudioProcessor)))
       = [Num (1 / 2), Num (3 / 10)]" by (rule e)
    show "\<not> sorted_wrt number_le
         (map (slot Converting)
            (delivered (snd (convertToWav example_file regressing_env new_AudioProcessor))))"
      unfolding e by (rule n)
  qed
qed

text \<open>
  Claim C3, as the code has it. Every slot of every snapshot ever delivered, on any
  instance and after any calls, is a number from 0 to 1 or \<open>NaN\<close>; and it is a number
  from 0 to 1, whatever the engine reports as its progress during the calls, values below
  0 and above 1 included, provided that none of these values is \<open>NaN\<close>. The slots are
  written with the value obtained from the reported one and never compared with the value
  before, so the order of the snapshots is the order of what is reported: in a run of the
  three stages on a new instance, stopped after any of them, every slot is non-decreasing
  across the successive snapshots provided that the values the engine reports during the
  transcode are not \<open>NaN\<close> and are non-decreasing.
\<close>

theorem progress_is_clamped_and_follows_the_engine:
  "(\<forall>p \<in> set (delivered (run calls new_AudioProcessor)). \<forall>st.
       slot st p = NaN \<or> (number_le (Num 0) (slot st p) \<and> number_le (slot st p) (Num 1)))
   \<and> ((\<forall>c \<in> set calls. NaN \<notin> set (reported c)) \<longrightarrow>
        (\<forall>p \<in> set (delivered (run calls new_AudioProcessor)). \<forall>st.
           number_le (Num 0) (slot st p) \<and> number_le (slot st p) (Num 1)))
   \<and> (NaN \<notin> set (fractions (exec_events cenv))
        \<and> sorted_wrt number_le (fractions (exec_events cenv)) \<longrightarrow>
        (\<forall>n st. sorted_wrt number_le (map (slot st)
           (delivered (run (take n [ConvertToWav audioFile cenv,
                                    TranscribeAudio openai audioBlob tenv,
                                    SegmentByTopics openai transcription aenv])
                         new_AudioProcessor)))))"
proof (intro conjI ballI allI impI)
  fix p st assume "p \<in> set (delivered (run calls new_AudioProcessor))"
  then have "p \<in> set (tl (heap (run calls new_AudioProcessor)))"
    by (simp add: delivered_tl[OF refs_ok_run])
  then have "p \<in> set (heap (run calls new_AudioProcessor))"
    by (rule list.set_sel(2)[rotated]) (rule heap_nonempty_run)
  then have "in_unit p" using heap_ok_run[of calls] by (simp add: heap_ok_def)
  then show "slot st p = NaN \<or> (number_le (Num 0) (slot st p) \<and> number_le (slot st p) (Num 1))"
    by (simp add: in_unit_def is_fraction_def)
next
  fix p st
  assume n: "\<forall>c \<in> set calls. NaN \<notin> set (reported c)"
    and "p \<in> set (delivered (run calls new_AudioProcessor))"
  then have "p \<in> set (tl (heap (run calls new_AudioProcessor)))"
    by (simp add: delivered_tl[OF refs_ok_run])
  then have "p \<in> set (heap (run calls new_AudioProcessor))"
    by (rule list.set_sel(2)[rotated]) (rule heap_nonempty_run)
  then have "fraction_slots p"
    using fractions_only_run[OF n] by (simp add: fractions_only_def)
  then show "number_le (Num 0) (slot st p)" and "number_le (slot st p) (Num 1)"
    by (simp_all add: fraction_slots_def is_fraction_def)
next
  fix n st
  assume a: "NaN \<notin> set (fractions (exec_events cenv))
             \<and> sorted_wrt number_le (fractions (exec_events cenv))"
  then have so: "sorted_wrt number_le (fractions (exec_events cenv))" by simp
  let ?c = "ConvertToWav audioFile cenv" and ?t = "TranscribeAudio openai audioBlob tenv"
  let ?a = "SegmentByTopics openai transcription aenv"
  let ?s1 = "snd (convertToWav audioFile cenv new_AudioProcessor)"
  let ?s2 = "snd (transcribeAudio openai audioBlob tenv ?s1)"
  let ?s3 = "snd (segmentByTopics openai transcription aenv ?s2)"
  have m1: "mono_ok ?s1 \<and> fresh_stages ?s1"
    using so mono_ok_new(1,2) by (rule convertToWav_mono) (simp add: a mono_ok_new(3))
  have m2: "mono_ok ?s2 \<and> analyzing (heap ?s2 ! 0) = Num 0"
    using m1 by (simp add: transcribeAudio_mono)
  have m3: "mono_ok ?s3" using m2 by (simp add: segmentByTopics_mono)
  have "mono_ok (run (take n [?c, ?t, ?a]) new_AudioProcessor)"
  proof (cases n)
    case 0
    then show ?thesis by (simp add: run_def mono_ok_new)
  next
    case (Suc n1)
    show ?thesis
    proof (cases n1)
      case 0
      with Suc m1 show ?thesis by (simp add: run_def)
    next
      case (Suc n2)
      show ?thesis
      proof (cases n2)
        case 0
        with Suc \<open>n = Suc n1\<close> m2 show ?thesis by (simp add: run_def)
      next
        case (Suc n3)
        with \<open>n1 = Suc n2\<close> \<open>n = Suc n1\<close> m3 show ?thesis by (simp add: run_def)
      qed
    qed
  qed
  then show "sorted_wrt number_le
               (map (slot st) (delivered (run (take n [?c, ?t, ?a]) new_AudioProcessor)))"
    using refs_ok_run by (rule mono_ok_delivered)
qed

theorem progress_is_clamped_and_follows_the_engine_witness:
  "delivered (run [ConvertToWav example_file overshooting_env] new_AudioProcessor)
     = [\<lparr>converting = Num 0, transcribing = Num 0, analyzing = Num 0\<rparr>,
        \<lparr>converting = Num 1, transcribing = Num 0, analyzing = Num 0\<rparr>]
   \<and> NaN \<notin> set (reported (ConvertToWav example_file overshooting_env))
   \<and> number_le (Num 0) (slot Converting \<lparr>converting = Num 1, transcribing = Num 0, analyzing = Num 0\<rparr>)
   \<and> number_le (slot Converting \<lparr>converting = Num 1, transcribing = Num 0, analyzing = Num 0\<rparr>) (Num 1)
   \<and> NaN \<notin> set (fractions (exec_events example_env))
   \<and> sorted_wrt number_le (fractions (exec_events example_env))
   \<and> sorted_wrt number_le (map (slot Converting)
        (delivered (run [ConvertToWav example_file example_env,
                         TranscribeAudio example_client example_blob example_tenv,
                         SegmentByTopics example_client ''We discussed the budget.'' example_aenv]
                      new_AudioProcessor)))"
proof -
  note T = progress_is_clamped_and_follows_the_engine[of
      "[ConvertToWav example_file overshooting_env]" example_env example_file
      example_client example_blob example_tenv "''We discussed the budget.''" example_aenv]
  have d: "delivered (run [ConvertToWav example_file overshooting_env] new_AudioProcessor)
     = [\<lparr>converting = Num 0, transcribing = Num 0, analyzing = Num 0\<rparr>,
        \<lparr>converting = Num 1, transcribing = Num 0, analyzing = Num 0\<rparr>]"
    by (simp add: model_defs overshooting_env_def example_env_def example_name delivered_def
          Math_max_def Math_min_def)
  have m: "\<lparr>converting = Num 1, transcribing = Num 0, analyzing = Num 0\<rparr>
     \<in> set (delivered (run [ConvertToWav example_file overshooting_env] new_AudioProcessor))"
    by (simp add: d)
  have r: "\<forall>c \<in> set [ConvertToWav example_file overshooting_env]. NaN \<notin> set (reported c)"
    by (simp add: overshooting_env_def)
  have s: "NaN \<notin> set (fractions (exec_events example_env))
           \<and> sorted_wrt number_le (fractions (exec_events example_env))"
    by (simp add: example_env_def)
  have 1: "number_le (Num 0)
             (slot Converting \<lparr>converting = Num 1, transcribing = Num 0, analyzing = Num 0\<rparr>)
           \<and> number_le
               (slot Converting \<lparr>converting = Num 1, transcribing = Num 0, analyzing = Num 0\<rparr>)
               (Num 1)"
    using T r m by blast
  have "sorted_wrt number_le (map (slot Converting)
        (delivered (run (take 3 [ConvertToWav example_file example_env,
                         TranscribeAudio example_client example_blob example_tenv,
                         SegmentByTopics example_client ''We discussed the budget.'' example_aenv])
                      new_AudioProcessor)))"
    using T s by blast
  then show ?thesis using d r s 1 by simp
qed

text \<open>
  Against C4 as stated: with a client that has no key and a service that rejects the
  request, both stages fail with the credential error, and in both the request has been
  sent.
\<close>

theorem missing_credential_counterexample:
  "apiKey keyless_client = None
   \<and> fst (transcribeAudio keyless_client example_blob rejecting_tenv new_AudioProcessor)
       = Inl (Error ''Invalid or missing OpenAI API key. Please check your environment variables.'')
   \<and> requests (snd (transcribeAudio keyless_client example_blob rejecting_tenv new_AudioProcessor))
       = [TranscriptionsCreate keyless_client example_blob ''whisper-1'' ''auto'']
   \<and> fst (segmentByTopics keyless_client ''Hello'' rejecting_aenv new_AudioProcessor)
       = Inl (Error ''Invalid or missing OpenAI API key. Please check your environment variables.'')
   \<and> requests (snd (segmentByTopics keyless_client ''Hello'' rejecting_aenv new_AudioProcessor))
       = [ChatCompletionsCreate keyless_client ''gpt-4'' (chat_messages ''Hello'') ''json_object'']"
  by (simp add: model_defs rejecting_tenv_def rejecting_aenv_def keyless_client_def requests_def)

text \<open>
  Claim C4, as the code has it. Neither stage looks at the key. On any instance and with
  any client, the one without a key included, \<open>transcribeAudio\<close> and \<open>segmentByTopics\<close>
  send exactly one request, and they fail with the credential error when that request
  fails with a message that mentions an API key.
\<close>

theorem credential_failure_is_read_off_the_failed_request:
  "requests (snd (transcribeAudio openai audioBlob tenv (run calls new_AudioProcessor)))
     = requests (run calls new_AudioProcessor)
       @ [TranscriptionsCreate openai audioBlob ''whisper-1'' ''auto'']
   \<and> (\<forall>message. create_outcome tenv = Inl (Error message) \<and> includes_str message ''API key'' \<longrightarrow>
         fst (transcribeAudio openai audioBlob tenv (run calls new_AudioProcessor))
           = Inl (Error ''Invalid or missing OpenAI API key. Please check your environment variables.''))
   \<and> requests (snd (segmentByTopics openai transcription aenv (run calls new_AudioProcessor)))
     = requests (run calls new_AudioProcessor)
       @ [ChatCompletionsCreate openai ''gpt-4'' (chat_messages transcription) ''json_object'']
   \<and> (\<forall>message. completion_outcome aenv = Inl (Error message) \<and> includes_str message ''API key'' \<longrightarrow>
         fst (segmentByTopics openai transcription aenv (run calls new_AudioProcessor))
           = Inl (Error ''Invalid or missing OpenAI API key. Please check your environment variables.''))"
  using not_aborted_at_entry_run[of calls]
  by (auto simp: transcribeAudio_def segmentByTopics_def catch_def Let_def
        transcribeAudio_catch_def segmentByTopics_catch_def split: sum.splits)

theorem credential_failure_is_read_off_the_failed_request_witness:
  "create_outcome rejecting_tenv = Inl (Error ''401 Incorrect API key provided'')
   \<and> includes_str ''401 Incorrect API key provided'' ''API key''
   \<and> completion_outcome rejecting_aenv = Inl (Error ''401 Incorrect API key provided'')
   \<and> fst (transcribeAudio keyless_client example_blob rejecting_tenv new_AudioProcessor)
       = Inl (Error ''Invalid or missing OpenAI API key. Please check your environment variables.'')
   \<and> fst (segmentByTopics keyless_client ''Hello'' rejecting_aenv new_AudioProcessor)
       = Inl (Error ''Invalid or missing OpenAI API key. Please check your environment variables.'')"
proof -
  have a: "create_outcome rejecting_tenv = Inl (Error ''401 Incorrect API key provided'')"
    by (simp add: rejecting_tenv_def)
  have b: "includes_str ''401 Incorrect API key provided'' ''API key''"
    by simp
  have c: "completion_outcome rejecting_aenv = Inl (Error ''401 Incorrect API key provided'')"
    by (simp add: rejecting_aenv_def)
  note T = credential_failure_is_read_off_the_failed_request[of keyless_client example_blob
             rejecting_tenv "[]" "''Hello''" rejecting_aenv]
  have 1: "fst (transcribeAudio keyless_client example_blob rejecting_tenv (run [] new_AudioProcessor))
       = Inl (Error ''Invalid or missing OpenAI API key. Please check your environment variables.'')"
    using T a b by blast
  have 2: "fst (segmentByTopics keyless_client ''Hello'' rejecting_aenv (run [] new_AudioProcessor))
       = Inl (Error ''Invalid or missing OpenAI API key. Please check your environment variables.'')"
    using T c b by blast
  show ?thesis using 1 2 a b c by (simp add: run_def)
qed

text \<open>
  Against C5 as stated: an unparsable content and a failed request with the same message
  give the same error.
\<close>

theorem unparsable_payload_counterexample:
  "fst (segmentByTopics example_client ''We discussed the budget.'' unparsable_aenv new_AudioProcessor)
     = Inl (Error ''Failed to analyze transcription: Unexpected token in JSON'')
   \<and> fst (segmentByTopics example_client ''We discussed the budget.''
            (unparsable_aenv\<lparr>completion_outcome := Inl (Error ''Unexpected token in JSON'')\<rparr>)
            new_AudioProcessor)
     = Inl (Error ''Failed to analyze transcription: Unexpected token in JSON'')"
  by (simp add: model_defs unparsable_aenv_def example_parse_def)

text \<open>
  Claim C5, as the code has it. A content that \<open>JSON.parse\<close> rejects goes through the same
  \<open>catch\<close> block as a failure of the request: the result is the error of a failed
  request with the parser's message, that is the analysis error wrapping the message, or
  the credential error when the message mentions an API key. There is no separate error
  for a malformed response.
\<close>

theorem unparsable_payload_is_wrapped_like_any_failure:
  "completion_outcome aenv = Inr (Some content # others) \<Longrightarrow>
   JSON_parse aenv content = Inl (Error message) \<Longrightarrow>
     fst (segmentByTopics openai transcription aenv (run calls new_AudioProcessor))
       = Inl (if includes_str message ''API key''
              then Error ''Invalid or missing OpenAI API key. Please check your environment variables.''
              else Error (''Failed to analyze transcription: '' @ message))
   \<and> fst (segmentByTopics openai transcription aenv (run calls new_AudioProcessor))
       = fst (segmentByTopics openai transcription (aenv\<lparr>completion_outcome := Inl (Error message)\<rparr>)
               (run calls new_AudioProcessor))"
  using not_aborted_at_entry_run[of calls]
  by (simp add: segmentByTopics_def catch_def Let_def parse_first_choice_def
        segmentByTopics_catch_def)

theorem unparsable_payload_is_wrapped_like_any_failure_witness:
  "completion_outcome unparsable_aenv = Inr (Some ''Sorry, no JSON'' # [])
   \<and> JSON_parse unparsable_aenv ''Sorry, no JSON'' = Inl (Error ''Unexpected token in JSON'')
   \<and> fst (segmentByTopics example_client ''Hello'' unparsable_aenv new_AudioProcessor)
       = Inl (Error ''Failed to analyze transcription: Unexpected token in JSON'')"
proof -
  have a: "completion_outcome unparsable_aenv = Inr (Some ''Sorry, no JSON'' # [])"
    by (simp add: unparsable_aenv_def)
  have b: "JSON_parse unparsable_aenv ''Sorry, no JSON'' = Inl (Error ''Unexpected token in JSON'')"
    by (simp add: unparsable_aenv_def example_parse_def)
  show ?thesis
    using unparsable_payload_is_wrapped_like_any_failure[OF a b, of example_client "''Hello''" "[]"] a b
    by (simp add: run_def)
qed

text \<open>
  Claim C6, at a failing input. \<open>cancel\<close> runs while the transcode is pending and the
  engine rejects the pending call with its termination error. \<open>convertToWav\<close> then fails
  with the conversion error wrapping that message, not with \<open>Operation cancelled\<close>; the
  engine is left uninitialized.
\<close>

theorem cancel_during_transcode_is_wrapped:
  "cancel_at interrupted_env = Some AwaitExec
   \<and> FFmpegTerminate
       \<in> set (trace (snd (convertToWav example_file interrupted_env new_AudioProcessor)))
   \<and> fst (convertToWav example_file interrupted_env new_AudioProcessor)
       = Inl (Error ''Failed to convert audio: called FFmpeg.terminate()'')
   \<and> fst (convertToWav example_file interrupted_env new_AudioProcessor)
       \<noteq> Inl (Error ''Operation cancelled'')
   \<and> \<not> initialized (snd (convertToWav example_file interrupted_env new_AudioProcessor))"
  by (simp add: convert_defs new_AudioProcessor_def example_name interrupted_env_def)

text \<open>
  Against C7 as stated: a successful conversion, a \<open>cancel\<close> and a second successful
  conversion on the same instance load the engine twice.
\<close>

theorem engine_initialized_twice_counterexample:
  "fst (convertToWav example_file quiet_env new_AudioProcessor) = Inr example_blob
   \<and> fst (convertToWav example_file quiet_env
            (cancel (snd (convertToWav example_file quiet_env new_AudioProcessor))))
       = Inr example_blob
   \<and> count_list
        (trace (run [ConvertToWav example_file quiet_env, Cancel,
                     ConvertToWav example_file quiet_env] new_AudioProcessor))
        FFmpegLoad = 2"
proof -
  have "convertToWav example_file quiet_env
            (cancel (snd (convertToWav example_file quiet_env new_AudioProcessor)))
     = (Inr example_blob,
        \<lparr>initialized = True, abortController = Some False,
         heap = [\<lparr>converting = Num 0, transcribing = Num 0, analyzing = Num 0\<rparr>],
         storage = [],
         trace = FFmpegNew # engine_initialization
                 @ [FetchFile, FFmpegWriteFile ''input.mp3'' [73, 68, 51],
                    FFmpegExec (exec_args example_file),
                    FFmpegReadFile ''output.wav'', FFmpegRm ''input.mp3'',
                    FFmpegRm ''output.wav'', AbortSignal, FFmpegTerminate]
                 @ engine_initialization
                 @ [FetchFile, FFmpegWriteFile ''input.mp3'' [73, 68, 51],
                    FFmpegExec (exec_args example_file),
                    FFmpegReadFile ''output.wav'', FFmpegRm ''input.mp3'',
                    FFmpegRm ''output.wav'']\<rparr>)"
    by (simp add: quiet_convert)
       (simp add: convert_defs example_name example_blob_def engine_initialization_def
          example_file_def[THEN arg_cong, of file_data])
  then show ?thesis
    by (simp add: quiet_convert run_def engine_initialization_def)
qed

text \<open>
  Claim C7, as the code has it. The constructor only creates an engine instance. A
  \<open>convertToWav\<close> on an uninitialized instance creates a new engine instance, fetches the
  three runtime components and loads them; on an initialized instance it does none of
  this. A conversion that succeeds with no \<open>cancel\<close> meanwhile leaves the instance
  initialized, so the next conversion reuses the engine; \<open>cancel\<close> makes the instance
  uninitialized again.
\<close>

theorem engine_is_initialized_whenever_uninitialized:
  "\<not> initialized new_AudioProcessor \<and> initializations new_AudioProcessor = [FFmpegNew]
   \<and> (\<not> initialized s \<and> (\<forall>url. toBlobURL_outcome env url = None) \<and> load_outcome env = None \<longrightarrow>
        initializations (snd (convertToWav audioFile env s))
          = initializations s @ engine_initialization)
   \<and> (initialized s \<longrightarrow>
        initializations (snd (convertToWav audioFile env s)) = initializations s)
   \<and> (\<forall>blob. fst (convertToWav audioFile env s) = Inr blob \<and> cancel_at env = None \<longrightarrow>
        initialized (snd (convertToWav audioFile env s))
        \<and> initializations (snd (convertToWav audioFile' env' (snd (convertToWav audioFile env s))))
            = initializations (snd (convertToWav audioFile env s)))
   \<and> \<not> initialized (cancel s)"
proof (intro conjI allI impI)
  show "\<not> initialized new_AudioProcessor" by (simp add: new_AudioProcessor_def)
  show "initializations new_AudioProcessor = [FFmpegNew]"
    by (simp add: new_AudioProcessor_def initializations_def)
  show "\<not> initialized (cancel s)" by simp
next
  assume "\<not> initialized s \<and> (\<forall>url. toBlobURL_outcome env url = None) \<and> load_outcome env = None"
  then have "post (convertToWav audioFile env s)
     (\<lambda>blob s'. initializations s' = initializations s @ engine_initialization)
     (\<lambda>e s'. initializations s' = initializations s @ engine_initialization)"
    by (intro convert_initializes) simp_all
  then show "initializations (snd (convertToWav audioFile env s))
          = initializations s @ engine_initialization"
    by (rule post_state)
next
  assume "initialized s"
  then have "post (convertToWav audioFile env s)
     (\<lambda>blob s'. initializations s' = initializations s)
     (\<lambda>e s'. initializations s' = initializations s)"
    by (rule convert_reuses)
  then show "initializations (snd (convertToWav audioFile env s)) = initializations s"
    by (rule post_state)
next
  fix blob
  assume a: "fst (convertToWav audioFile env s) = Inr blob \<and> cancel_at env = None"
  then have "post (convertToWav audioFile env s) (\<lambda>blob s'. initialized s') (\<lambda>e s'. True)"
    by (intro convert_leaves_initialized) simp
  from post_ok[OF this] a show i: "initialized (snd (convertToWav audioFile env s))" by simp
  have "post (convertToWav audioFile' env' (snd (convertToWav audioFile env s)))
     (\<lambda>blob s'. initializations s' = initializations (snd (convertToWav audioFile env s)))
     (\<lambda>e s'. initializations s' = initializations (snd (convertToWav audioFile env s)))"
    using i by (rule convert_reuses)
  then show "initializations (snd (convertToWav audioFile' env' (snd (convertToWav audioFile env s))))
            = initializations (snd (convertToWav audioFile env s))"
    by (rule post_state)
qed

theorem engine_is_initialized_whenever_uninitialized_witness:
  "\<not> initialized new_AudioProcessor
   \<and> fst (convertToWav example_file quiet_env new_AudioProcessor) = Inr example_blob
   \<and> initializations (snd (convertToWav example_file quiet_env new_AudioProcessor))
       = [FFmpegNew] @ engine_initialization
   \<and> initialized (snd (convertToWav example_file quiet_env new_AudioProcessor))
   \<and> initializations (snd (convertToWav example_file failing_exec_env
                              (snd (convertToWav example_file quiet_env new_AudioProcessor))))
       = [FFmpegNew] @ engine_initialization"
proof -
  note T = engine_is_initialized_whenever_uninitialized[where s=new_AudioProcessor
             and env=quiet_env and audioFile=example_file and audioFile'=example_file
             and env'=failing_exec_env]
  note U = engine_is_initialized_whenever_uninitialized[where
             s="snd (convertToWav example_file quiet_env new_AudioProcessor)"
             and env=failing_exec_env and audioFile=example_file and audioFile'=example_file
             and env'=failing_exec_env]
  have ok: "fst (convertToWav example_file quiet_env new_AudioProcessor) = Inr example_blob"
    by (simp add: quiet_convert)
  have n: "\<not> initialized new_AudioProcessor" and n': "initializations new_AudioProcessor = [FFmpegNew]"
    using T by blast+
  have q: "(\<forall>url. toBlobURL_outcome quiet_env url = None) \<and> load_outcome quiet_env = None
           \<and> cancel_at quiet_env = None"
    by simp
  have 1: "initializations (snd (convertToWav example_file quiet_env new_AudioProcessor))
       = initializations new_AudioProcessor @ engine_initialization"
    using T n q by blast
  have 2: "initialized (snd (convertToWav example_file quiet_env new_AudioProcessor))"
    using T ok q by blast
  have 3: "initializations (snd (convertToWav example_file failing_exec_env
                              (snd (convertToWav example_file quiet_env new_AudioProcessor))))
       = initializations (snd (convertToWav example_file quiet_env new_AudioProcessor))"
    using U 2 by blast
  show ?thesis using n ok 1 2 3 n' by simp
qed



text \<open>
  Claim C9. A progress update passes to the callback the reference of a new object, never
  the object of the field \<open>progress\<close> itself (reference 0); the new object holds what the
  record holds at that moment, and neither the next update nor anything called on the
  instance afterwards, in any order and with any outcome, changes it. The same holds of
  every reference the callback has received so far, including those delivered by the
  handlers in the middle of a call: each such object differs from the one delivered before
  it (from the all-zero record for the first) in the slot of its own stage at most, and the
  object delivered with a bitrate does not differ from it in the \<open>converting\<close> slot either.
  A log line in which the bitrate pattern matches produces one callback whose details carry
  the matched number followed by \<open>kbps\<close>; the \<open>converting\<close> slot of the snapshot and of the
  record both equal the value recorded before the line arrived.
\<close>

theorem snapshots_are_copies:
  "(let s = run calls new_AudioProcessor; a = length (heap s); s1 = updateProgress st v d s in
      trace s1 = trace s @ [Callback st a d] \<and> 0 < a \<and> heap s1 ! a = heap s1 ! 0
      \<and> heap (updateProgress st' v' d' s1) ! a = heap s1 ! a
      \<and> heap (run later s1) ! a = heap s1 ! a)
   \<and> (\<forall>st a d. Callback st a d \<in> set (trace (run calls new_AudioProcessor)) \<longrightarrow>
       0 < a \<and> a < length (heap (run calls new_AudioProcessor))
       \<and> heap (run later (run calls new_AudioProcessor)) ! a
           = heap (run calls new_AudioProcessor) ! a
       \<and> (\<forall>st'. st' \<noteq> st \<longrightarrow>
             slot st' (heap (run calls new_AudioProcessor) ! a)
               = recorded_before st' (run calls new_AudioProcessor) a)
       \<and> (with_bitrate d \<longrightarrow>
             st = Converting
             \<and> slot Converting (heap (run calls new_AudioProcessor) ! a)
                 = recorded_before Converting (run calls new_AudioProcessor) a))
   \<and> (\<forall>b. bitrate_match message = Some b \<longrightarrow>
        (let s = run calls new_AudioProcessor; s' = on_log message s in
           trace s' = trace s @
             [Callback Converting (length (heap s))
                (Some (no_details\<lparr>stage := Some ''Processing audio'',
                                  bitrate := Some (b @ '' kbps'')\<rparr>))]
           \<and> slot Converting (heap s' ! length (heap s)) = slot Converting (heap s ! 0)
           \<and> slot Converting (heap s' ! 0) = slot Converting (heap s ! 0)))"
proof (intro conjI allI impI)
  let ?s = "run calls new_AudioProcessor"
  let ?s1 = "updateProgress st v d ?s"
  have ne: "heap ?s \<noteq> []" by (rule heap_nonempty_run)
  then have pos: "0 < length (heap ?s)" by simp
  have lt: "length (heap ?s) < length (heap ?s1)" by simp
  have k1: "snapshots_kept ?s1 (updateProgress st' v' d' ?s1)"
    by (rule kept_updateProgress[where I="snapshots_kept ?s1", OF kept_snapshots_kept])
       (simp add: snapshots_kept_def)
  have k2: "snapshots_kept ?s1 (run later ?s1)" by (rule snapshots_kept_run)
  show "let s = ?s; a = length (heap s); s1 = updateProgress st v d s in
      trace s1 = trace s @ [Callback st a d] \<and> 0 < a \<and> heap s1 ! a = heap s1 ! 0
      \<and> heap (updateProgress st' v' d' s1) ! a = heap s1 ! a
      \<and> heap (run later s1) ! a = heap s1 ! a"
    unfolding Let_def
    using pos lt k1 k2 ne
    by (simp add: snapshots_kept_def nth_updateProgress_new nth_updateProgress_0)
next
  fix st a d
  assume cb: "Callback st a d \<in> set (trace (run calls new_AudioProcessor))"
  then have "a \<in> set (callback_refs (trace (run calls new_AudioProcessor)))"
    by (rule callback_in_refs)
  then have r: "0 < a \<and> a < length (heap (run calls new_AudioProcessor))"
    using refs_ok_run[of calls] by (simp add: refs_ok_def)
  then show "0 < a" and "a < length (heap (run calls new_AudioProcessor))" by simp_all
  show "heap (run later (run calls new_AudioProcessor)) ! a = heap (run calls new_AudioProcessor) ! a"
    using snapshots_kept_run[of "run calls new_AudioProcessor" later] r
    by (simp add: snapshots_kept_def)
  note H = history_ok_run[of calls, unfolded history_ok_def]
  show "slot st' (heap (run calls new_AudioProcessor) ! a)
          = recorded_before st' (run calls new_AudioProcessor) a" if "st' \<noteq> st" for st'
    using H cb that by blast
  show "st = Converting" if "with_bitrate d"
    using H cb that by blast
  show "slot Converting (heap (run calls new_AudioProcessor) ! a)
          = recorded_before Converting (run calls new_AudioProcessor) a" if "with_bitrate d"
    using H cb that by blast
next
  fix b assume "bitrate_match message = Some b"
  then show "let s = run calls new_AudioProcessor; s' = on_log message s in
           trace s' = trace s @
             [Callback Converting (length (heap s))
                (Some (no_details\<lparr>stage := Some ''Processing audio'',
                                  bitrate := Some (b @ '' kbps'')\<rparr>))]
           \<and> slot Converting (heap s' ! length (heap s)) = slot Converting (heap s ! 0)
           \<and> slot Converting (heap s' ! 0) = slot Converting (heap s ! 0)"
    unfolding Let_def using on_log_match[OF heap_ok_run] by blast
qed

theorem snapshots_are_copies_witness:
  "Callback Transcribing 1 None
     \<in> set (trace (run [TranscribeAudio example_client example_blob example_tenv] new_AudioProcessor))
   \<and> heap (run [Cancel, SegmentByTopics example_client ''We discussed the budget.'' example_aenv]
             (run [TranscribeAudio example_client example_blob example_tenv] new_AudioProcessor)) ! 1
       = \<lparr>converting = Num 0, transcribing = Num (1 / 10), analyzing = Num 0\<rparr>
   \<and> bitrate_match ''bitrate= 256.0kbits/s'' = Some ''256.0''
   \<and> slot Converting
         (heap (on_log ''bitrate= 256.0kbits/s''
                  (run [TranscribeAudio example_client example_blob example_tenv] new_AudioProcessor)) ! 3)
       = Num 0
   \<and> Callback Converting 1
        (Some (no_details\<lparr>stage := Some ''Processing audio'', bitrate := Some ''256.0 kbps''\<rparr>))
     \<in> set (trace (run [ConvertToWav example_file logging_env] new_AudioProcessor))
   \<and> slot Converting (heap (run [ConvertToWav example_file logging_env] new_AudioProcessor) ! 1)
       = Num 0"
proof -
  have t: "Callback Transcribing 1 None
     \<in> set (trace (run [TranscribeAudio example_client example_blob example_tenv] new_AudioProcessor))"
    by (simp add: model_defs example_tenv_def)
  have h: "heap (run [TranscribeAudio example_client example_blob example_tenv] new_AudioProcessor)
           = [\<lparr>converting = Num 0, transcribing = Num 1, analyzing = Num 0\<rparr>,
              \<lparr>converting = Num 0, transcribing = Num (1 / 10), analyzing = Num 0\<rparr>,
              \<lparr>converting = Num 0, transcribing = Num 1, analyzing = Num 0\<rparr>]"
    by (simp add: model_defs example_tenv_def Math_max_def Math_min_def)
  note T = snapshots_are_copies[where
            calls="[TranscribeAudio example_client example_blob example_tenv]"
            and later="[Cancel, SegmentByTopics example_client ''We discussed the budget.'' example_aenv]"
            and message="''bitrate= 256.0kbits/s''"]
  have 1: "heap (run [Cancel, SegmentByTopics example_client ''We discussed the budget.'' example_aenv]
             (run [TranscribeAudio example_client example_blob example_tenv] new_AudioProcessor)) ! 1
           = heap (run [TranscribeAudio example_client example_blob example_tenv] new_AudioProcessor) ! 1"
    using T t by blast
  have 2: "slot Converting
         (heap (on_log ''bitrate= 256.0kbits/s''
                  (run [TranscribeAudio example_client example_blob example_tenv] new_AudioProcessor))
          ! length (heap (run [TranscribeAudio example_client example_blob example_tenv]
                            new_AudioProcessor)))
       = slot Converting
           (heap (run [TranscribeAudio example_client example_blob example_tenv] new_AudioProcessor) ! 0)"
    using T example_bitrate unfolding Let_def by blast
  have l: "Callback Converting 1
        (Some (no_details\<lparr>stage := Some ''Processing audio'', bitrate := Some ''256.0 kbps''\<rparr>))
     \<in> set (trace (run [ConvertToWav example_file logging_env] new_AudioProcessor))"
    by (simp add: model_defs logging_env_def example_name example_bitrate
          del: bitrate_match.simps)
  note U = snapshots_are_copies[where calls="[ConvertToWav example_file logging_env]"]
  have 3: "slot Converting (heap (run [ConvertToWav example_file logging_env] new_AudioProcessor) ! 1)
       = recorded_before Converting (run [ConvertToWav example_file logging_env] new_AudioProcessor) 1"
    using U l without_bitrate(3) by blast
  show ?thesis
    using 1 2 3 t h l example_bitrate by (simp add: eval_nat_numeral recorded_before_def)
qed

text \<open>
  Claim C10. Whenever the analysis service answers and \<open>JSON.parse\<close> accepts the content
  of its first choice, \<open>segmentByTopics\<close> returns exactly the parsed value, whatever its
  shape; the same holds for the empty transcription, for which the request is sent as for
  any other.
\<close>

theorem analyze_returns_parsed_value_as_is:
  "completion_outcome aenv = Inr (Some content # others) \<Longrightarrow>
   JSON_parse aenv content = Inr v \<Longrightarrow>
     fst (segmentByTopics openai transcription aenv (run calls new_AudioProcessor)) = Inr v
   \<and> fst (segmentByTopics openai [] aenv (run calls new_AudioProcessor)) = Inr v
   \<and> requests (snd (segmentByTopics openai [] aenv (run calls new_AudioProcessor)))
       = requests (run calls new_AudioProcessor)
         @ [ChatCompletionsCreate openai ''gpt-4'' (chat_messages []) ''json_object'']"
  using not_aborted_at_entry_run[of calls]
  by (simp add: segmentByTopics_def catch_def Let_def parse_first_choice_def requests_def)

theorem analyze_returns_parsed_value_as_is_witness:
  "completion_outcome shapeless_aenv = Inr (Some ''[1]'' # [])
   \<and> JSON_parse shapeless_aenv ''[1]'' = Inr (JArray [JNumber 1])
   \<and> fst (segmentByTopics example_client [] shapeless_aenv new_AudioProcessor)
       = Inr (JArray [JNumber 1])"
proof -
  have a: "completion_outcome shapeless_aenv = Inr (Some ''[1]'' # [])"
    by (simp add: shapeless_aenv_def)
  have b: "JSON_parse shapeless_aenv ''[1]'' = Inr (JArray [JNumber 1])"
    by (simp add: shapeless_aenv_def example_parse_def)
  show ?thesis
    using analyze_returns_parsed_value_as_is[OF a b, of example_client "[]" "[]"] a b
    by (simp add: run_def)
qed

end
